theory Spec2Isabelle
  imports Main "HOL-Library.Sublist"
begin

section \<open>Strings and numbers of the host language\<close>

text \<open>
  Strings are byte lists. \<open>toLowerCase\<close> lowers the ASCII letters,
  \<open>str_includes s pat\<close> is \<open>s.includes(pat)\<close>, \<open>string_of_nat\<close> is
  the decimal rendering a template literal gives a non-negative count, and
  \<open>truthy_num\<close>, \<open>truthy_str\<close> are the truthiness tests the source applies to
  optional numbers and strings (\<open>undefined\<close>, \<open>null\<close>, \<open>0\<close> and the
  empty string are falsy).
\<close>

definition char_in :: "char \<Rightarrow> char \<Rightarrow> char \<Rightarrow> bool" where
  "char_in lo hi c = ((of_char lo :: nat) \<le> of_char c \<and> (of_char c :: nat) \<le> of_char hi)"

definition lower_char :: "char \<Rightarrow> char" where
  "lower_char c =
     (if char_in CHR ''A'' CHR ''Z'' c then char_of ((of_char c :: nat) + 32) else c)"

definition toLowerCase :: "string \<Rightarrow> string" where
  "toLowerCase s = map lower_char s"

fun str_includes :: "string \<Rightarrow> string \<Rightarrow> bool" where
  "str_includes [] pat = (pat = [])"
| "str_includes (c # cs) pat = (prefix pat (c # cs) \<or> str_includes cs pat)"

fun string_of_nat :: "nat \<Rightarrow> string" where
  "string_of_nat n =
     (if n < 10 then [''0123456789'' ! n]
      else string_of_nat (n div 10) @ [''0123456789'' ! (n mod 10)])"

definition truthy_num :: "int option \<Rightarrow> bool" where
  "truthy_num v = (case v of None \<Rightarrow> False | Some n \<Rightarrow> n \<noteq> 0)"

definition truthy_str :: "string option \<Rightarrow> bool" where
  "truthy_str v = (case v of None \<Rightarrow> False | Some s \<Rightarrow> s \<noteq> [])"

section \<open>wallet.ts: address validation\<close>

text \<open>
  The character class \<open>[0-9A-HJ-NP-Z]\<close> of both regular expressions, and the
  match of \<open>/^XY[0-9A-HJ-NP-Z]{38,39}$/\<close> against a whole string: the two-letter
  prefix, then 38 or 39 characters of the class, then the end of the input.
\<close>

definition c32_class :: "char \<Rightarrow> bool" where
  "c32_class c =
     (char_in CHR ''0'' CHR ''9'' c \<or> char_in CHR ''A'' CHR ''H'' c
      \<or> char_in CHR ''J'' CHR ''N'' c \<or> char_in CHR ''P'' CHR ''Z'' c)"

definition address_regex :: "string \<Rightarrow> string \<Rightarrow> bool" where
  "address_regex pre address =
     (take 2 address = pre
      \<and> (length (drop 2 address) = 38 \<or> length (drop 2 address) = 39)
      \<and> list_all c32_class (drop 2 address))"

definition isValidStacksAddress :: "string \<Rightarrow> bool" where
  "isValidStacksAddress address =
     (address_regex ''SP'' address \<or> address_regex ''ST'' address)"

section \<open>types.ts: the data model\<close>

datatype Tier = A | B | C | D

datatype OutreachStatus = OPending | PrOpened | PrMerged | PrClosed | Declined

datatype AirdropStatus = Pending | Sent | Confirmed | Failed

text \<open>
  A matched repository. Star counts are the non-negative counts of the code host.
  \<open>lastUpdated\<close> holds what \<open>new Date(repo.lastUpdated).getTime()\<close> yields, in
  milliseconds, with \<open>None\<close> for an invalid date (\<open>NaN\<close>).
\<close>

record MatchedRepo =
  name :: string
  fullName :: string
  url :: string
  stars :: nat
  description :: "string option"
  lastUpdated :: "int option"
  matchedQuery :: string

text \<open>
  A row of the \<open>prospects\<close> table, with the columns the scoring, outreach and
  payout stages read or write. The column \<open>id\<close> is the field \<open>id_p\<close>.
\<close>

record Prospect =
  id_p :: int
  githubUsername :: string
  repos :: "MatchedRepo list"
  score :: int
  tier :: "Tier option"
  outreachStatus :: OutreachStatus
  targetRepo :: "string option"
  prUrl :: "string option"
  prNumber :: "int option"
  prOpenedAt :: "string option"
  stacksAddress :: "string option"
  addressValid :: bool
  airdropStatus :: AirdropStatus
  airdropTxid :: "string option"
  airdropAmountSats :: "int option"
  airdropSentAt :: "string option"
  updatedAt :: string

record ScoringBreakdown =
  claudeMcp :: int
  aiAgent :: int
  b_stars :: int
  activity :: int
  followers :: int
  crypto :: int

record QualificationResult =
  q_score :: int
  q_tier :: Tier
  breakdown :: ScoringBreakdown
  personalizationHooks :: "string list"

section \<open>qualifier.ts: scoring\<close>

definition WEIGHTS_CLAUDE_MCP :: int where "WEIGHTS_CLAUDE_MCP = 30"
definition WEIGHTS_AI_AGENT :: int where "WEIGHTS_AI_AGENT = 25"
definition WEIGHTS_STARS :: int where "WEIGHTS_STARS = 15"
definition WEIGHTS_ACTIVITY :: int where "WEIGHTS_ACTIVITY = 15"
definition WEIGHTS_CRYPTO :: int where "WEIGHTS_CRYPTO = 5"

definition repo_desc :: "MatchedRepo \<Rightarrow> string" where
  "repo_desc r = (case description r of None \<Rightarrow> [] | Some d \<Rightarrow> d)"

text \<open>The template string \<open>`${query} ${name} ${desc}`\<close> of the lowered fields.\<close>

definition combined :: "MatchedRepo \<Rightarrow> string" where
  "combined r =
     toLowerCase (matchedQuery r) @ '' '' @ toLowerCase (name r) @ '' ''
       @ toLowerCase (repo_desc r)"

definition mcpIndicators :: "string list" where
  "mcpIndicators =
     [''mcp.json'', ''@modelcontextprotocol'', ''claude-mcp'', ''model-context-protocol'',
      ''anthropic'']"

definition mcp_hit :: "MatchedRepo \<Rightarrow> bool" where
  "mcp_hit r =
     list_ex (\<lambda>indicator.
        str_includes (toLowerCase (matchedQuery r)) indicator
        \<or> str_includes (toLowerCase (name r)) indicator
        \<or> str_includes (toLowerCase (repo_desc r)) indicator) mcpIndicators"

text \<open>
  The outer loop of \<open>scoreClaudeMcp\<close>: the score starts at 0, the first repository
  with an indicator sets it to the full weight, and the loop breaks once it is positive.
\<close>

fun scoreClaudeMcp_loop :: "MatchedRepo list \<Rightarrow> int \<Rightarrow> int" where
  "scoreClaudeMcp_loop [] sc = sc"
| "scoreClaudeMcp_loop (r # rs) sc =
     (let sc' = (if mcp_hit r then WEIGHTS_CLAUDE_MCP else sc)
      in if sc' > 0 then sc' else scoreClaudeMcp_loop rs sc')"

definition scoreClaudeMcp :: "Prospect \<Rightarrow> int" where
  "scoreClaudeMcp p = scoreClaudeMcp_loop (repos p) 0"

definition agentIndicators :: "(string \<times> int) list" where
  "agentIndicators =
     [(''langchain'', 25), (''autogpt'', 25), (''crewai'', 25), (''agent'', 15),
      (''autonomous'', 10), (''tool_calling'', 15), (''function_call'', 15)]"

definition agent_repo :: "MatchedRepo \<Rightarrow> int \<Rightarrow> int" where
  "agent_repo r maxScore =
     foldl (\<lambda>m (pattern, points). if str_includes (combined r) pattern then max m points else m)
       maxScore agentIndicators"

definition scoreAiAgent :: "Prospect \<Rightarrow> int" where
  "scoreAiAgent p = min (foldl (\<lambda>m r. agent_repo r m) 0 (repos p)) WEIGHTS_AI_AGENT"

definition totalStars :: "Prospect \<Rightarrow> nat" where
  "totalStars p = foldl (\<lambda>sum repo. sum + stars repo) 0 (repos p)"

definition scoreStars :: "Prospect \<Rightarrow> int" where
  "scoreStars p = min (int (totalStars p) div 10) WEIGHTS_STARS"

text \<open>
  \<open>scoreActivity\<close> at the clock reading \<open>now\<close> (milliseconds). The variable
  \<open>mostRecentUpdate\<close> is \<open>None\<close> while it is \<open>null\<close>; once set it holds a
  date, itself \<open>None\<close> when invalid. A comparison with an invalid date is false.
\<close>

definition date_gt :: "int option \<Rightarrow> int option \<Rightarrow> bool" where
  "date_gt x y = (case (x, y) of (Some a, Some b) \<Rightarrow> a > b | _ \<Rightarrow> False)"

definition date_ge :: "int option \<Rightarrow> int \<Rightarrow> bool" where
  "date_ge x t = (case x of Some a \<Rightarrow> a \<ge> t | None \<Rightarrow> False)"

definition mostRecentUpdate :: "MatchedRepo list \<Rightarrow> int option option" where
  "mostRecentUpdate rs =
     foldl (\<lambda>most repo.
        (case most of
           None \<Rightarrow> Some (lastUpdated repo)
         | Some m \<Rightarrow> if date_gt (lastUpdated repo) m then Some (lastUpdated repo) else Some m))
       None rs"

definition day_ms :: int where
  "day_ms = 24 * 60 * 60 * 1000"

definition scoreActivity :: "int \<Rightarrow> Prospect \<Rightarrow> int" where
  "scoreActivity now p =
     (case mostRecentUpdate (repos p) of
        None \<Rightarrow> 0
      | Some m \<Rightarrow>
          if date_ge m (now - 30 * day_ms) then WEIGHTS_ACTIVITY
          else if date_ge m (now - 90 * day_ms) then 10
          else if date_ge m (now - 180 * day_ms) then 5
          else 0)"

definition scoreFollowers :: "Prospect \<Rightarrow> int" where
  "scoreFollowers p = 0"

definition cryptoIndicators :: "string list" where
  "cryptoIndicators =
     [''bitcoin'', ''btc'', ''ethereum'', ''eth'', ''stacks'', ''sbtc'', ''web3'',
      ''blockchain'', ''crypto'', ''defi'', ''nft'', ''clarity'', ''solidity'', ''rust'']"

definition scoreCrypto :: "Prospect \<Rightarrow> int" where
  "scoreCrypto p =
     (if list_ex (\<lambda>repo. list_ex (\<lambda>indicator. str_includes (combined repo) indicator)
            cryptoIndicators) (repos p)
      then WEIGHTS_CRYPTO else 0)"

text \<open>
  The framework hook: the first repository naming a framework decides, and within a
  repository the order of the tests is langchain, crewai, autogpt. Here the three
  fields are joined first and lowered afterwards.
\<close>

definition hook_text :: "MatchedRepo \<Rightarrow> string" where
  "hook_text r = toLowerCase (matchedQuery r @ '' '' @ name r @ '' '' @ repo_desc r)"

fun framework_hook :: "MatchedRepo list \<Rightarrow> string list" where
  "framework_hook [] = []"
| "framework_hook (r # rs) =
     (if str_includes (hook_text r) ''langchain'' then [''LangChain developer'']
      else if str_includes (hook_text r) ''crewai'' then [''CrewAI builder'']
      else if str_includes (hook_text r) ''autogpt'' then [''AutoGPT contributor'']
      else framework_hook rs)"

text \<open>
  \<open>topRepo\<close> is a \<open>reduce\<close> whose initial value \<open>prospect.repos[0]\<close> is always
  passed, so it never raises on an empty array: there it returns the initial value,
  \<open>undefined\<close>, here \<open>None\<close>.
\<close>

definition topRepo :: "MatchedRepo list \<Rightarrow> MatchedRepo option" where
  "topRepo rs =
     foldl (\<lambda>best repo.
        if stars repo > (case best of None \<Rightarrow> 0 | Some b \<Rightarrow> stars b) then Some repo else best)
       (case rs of [] \<Rightarrow> None | r # _ \<Rightarrow> Some r) rs"

definition generatePersonalizationHooks :: "Prospect \<Rightarrow> ScoringBreakdown \<Rightarrow> string list" where
  "generatePersonalizationHooks p bd =
     (if claudeMcp bd > 0 then [''Works with Claude MCP''] else [])
     @ (if aiAgent bd \<ge> 25 then framework_hook (repos p) else [])
     @ (if crypto bd > 0 then [''Already working in crypto/blockchain''] else [])
     @ (if b_stars bd \<ge> 10 then [string_of_nat (totalStars p) @ ''+ stars on AI projects''] else [])
     @ (case topRepo (repos p) of None \<Rightarrow> [] | Some t \<Rightarrow> [''Built '' @ name t])"

definition getTier :: "int \<Rightarrow> Tier" where
  "getTier sc = (if sc \<ge> 70 then A else if sc \<ge> 40 then B else if sc \<ge> 20 then C else D)"

definition qualifyProspect :: "int \<Rightarrow> Prospect \<Rightarrow> QualificationResult" where
  "qualifyProspect now p =
     (let bd = \<lparr>claudeMcp = scoreClaudeMcp p, aiAgent = scoreAiAgent p, b_stars = scoreStars p,
                activity = scoreActivity now p, followers = scoreFollowers p,
                crypto = scoreCrypto p\<rparr>;
          sc = claudeMcp bd + aiAgent bd + b_stars bd + activity bd + followers bd + crypto bd
      in \<lparr>q_score = sc, q_tier = getTier sc, breakdown = bd,
          personalizationHooks = generatePersonalizationHooks p bd\<rparr>)"

section \<open>db.ts: the store\<close>

text \<open>
  The store holds the \<open>prospects\<close> table, the \<open>daily_limits\<close> table and the
  activity log; \<open>calls\<close> is the trace of the calls made to external services. The
  prospect rows are listed in the order \<open>ORDER BY created_at DESC\<close> returns them.
  The primary key of \<open>daily_limits\<close> is the date, so that table is a map from dates
  to rows. The external world of one run is a record of what the clock and the external
  services answer: \<open>today\<close> is \<open>getTodayDate()\<close>, \<open>now_sql\<close> is
  \<open>datetime('now')\<close>, \<open>now_iso\<close> is \<open>new Date().toISOString()\<close>; one run
  is taken to lie within one reading of each. The answer of a chain or code-host call
  may depend on the calls made so far, its first argument, so that two calls with the
  same arguments can be answered differently.
\<close>

record DailyLimitsRow =
  prs_opened :: int
  airdrops_sent :: int

record DailyLimits =
  date :: string
  prsOpened :: int
  airdropsSent :: int

datatype details =
    AirdropFailedDetails string int
  | AirdropConfirmedDetails string int "int option"
  | QualifyScoredDetails int Tier ScoringBreakdown
  | OutreachPrCreatedDetails "string option" Tier
  | OutreachFailedDetails string

record ActivityLogEntry =
  action :: string
  prospect_id :: "int option"
  log_details :: details

datatype ext_call =
    GetWalletAddress
  | GetWalletInfo string
  | SendSbtc string int string
  | TxStatus string nat
  | PostPRComment string string int
  | CheckAuth
  | GetAuthenticatedUser
  | ForkRepo string string
  | CreateBranch string string
  | CreateFile string string
  | CreatePR string string

record state =
  prospects :: "Prospect list"
  daily_limits :: "string \<rightharpoonup> DailyLimitsRow"
  activity_log :: "ActivityLogEntry list"
  calls :: "ext_call list"

datatype broadcast_outcome = Thrown string | Rejected string string | Accepted string

datatype poll_outcome = TxSuccess "int option" | TxAborted | TxOther

record world =
  today :: string
  now_ms :: int
  now_iso :: string
  now_sql :: string
  wallet_address :: "string + string"
  wallet_info :: "string \<Rightarrow> string + int option"
  broadcast :: "ext_call list \<Rightarrow> string \<Rightarrow> int \<Rightarrow> string \<Rightarrow> broadcast_outcome"
  tx_status :: "ext_call list \<Rightarrow> string \<Rightarrow> nat \<Rightarrow> poll_outcome"
  check_auth :: bool
  gh :: "ext_call list \<Rightarrow> ext_call \<Rightarrow> string option"
  auth_user :: string
  created_pr :: "ext_call list \<Rightarrow> string \<Rightarrow> string \<Rightarrow> string \<times> int"

definition getProspectById :: "int \<Rightarrow> state \<Rightarrow> Prospect option" where
  "getProspectById i s = find (\<lambda>r. id_p r = i) (prospects s)"

record ProspectFilters =
  f_tier :: "Tier option"
  f_outreachStatus :: "OutreachStatus option"
  f_airdropStatus :: "AirdropStatus option"
  f_pendingQualification :: bool
  f_limit :: "int option"

definition no_filters :: ProspectFilters where
  "no_filters = \<lparr>f_tier = None, f_outreachStatus = None, f_airdropStatus = None,
     f_pendingQualification = False, f_limit = None\<rparr>"

text \<open>\<open>LIMIT n\<close>: a negative \<open>n\<close> means no limit.\<close>

definition sql_limit :: "int \<Rightarrow> 'a list \<Rightarrow> 'a list" where
  "sql_limit n rows = (if n < 0 then rows else take (nat n) rows)"

definition row_matches :: "ProspectFilters \<Rightarrow> Prospect \<Rightarrow> bool" where
  "row_matches f r =
     ((case f_tier f of None \<Rightarrow> True | Some t \<Rightarrow> tier r = Some t)
      \<and> (case f_outreachStatus f of None \<Rightarrow> True | Some st \<Rightarrow> outreachStatus r = st)
      \<and> (case f_airdropStatus f of None \<Rightarrow> True | Some st \<Rightarrow> airdropStatus r = st)
      \<and> (if f_pendingQualification f then tier r = None else True))"

definition getProspects :: "ProspectFilters \<Rightarrow> state \<Rightarrow> Prospect list" where
  "getProspects f s =
     (let rows = filter (row_matches f) (prospects s)
      in case f_limit f of
           None \<Rightarrow> rows
         | Some n \<Rightarrow> if n \<noteq> 0 then sql_limit n rows else rows)"

definition update_rows :: "int \<Rightarrow> (Prospect \<Rightarrow> Prospect) \<Rightarrow> state \<Rightarrow> state" where
  "update_rows i f s = s\<lparr>prospects := map (\<lambda>r. if id_p r = i then f r else r) (prospects s)\<rparr>"

definition updateProspectScore :: "world \<Rightarrow> int \<Rightarrow> int \<Rightarrow> Tier \<Rightarrow> state \<Rightarrow> state" where
  "updateProspectScore w i sc t s =
     update_rows i (\<lambda>r. r\<lparr>score := sc, tier := Some t, updatedAt := now_sql w\<rparr>) s"

text \<open>\<open>COALESCE(?, column)\<close>: the parameter when it is not null, else the column.\<close>

definition coalesce :: "'a option \<Rightarrow> 'a option \<Rightarrow> 'a option" where
  "coalesce v old = (case v of None \<Rightarrow> old | Some x \<Rightarrow> Some x)"

record OutreachUpdate =
  u_outreachStatus :: OutreachStatus
  u_targetRepo :: "string option"
  u_prUrl :: "string option"
  u_prNumber :: "int option"
  u_prOpenedAt :: "string option"

definition updateProspectOutreach :: "world \<Rightarrow> int \<Rightarrow> OutreachUpdate \<Rightarrow> state \<Rightarrow> state" where
  "updateProspectOutreach w i d s =
     update_rows i (\<lambda>r. r\<lparr>outreachStatus := u_outreachStatus d,
        targetRepo := coalesce (u_targetRepo d) (targetRepo r),
        prUrl := coalesce (u_prUrl d) (prUrl r),
        prNumber := coalesce (u_prNumber d) (prNumber r),
        prOpenedAt := coalesce (u_prOpenedAt d) (prOpenedAt r),
        updatedAt := now_sql w\<rparr>) s"

record AirdropUpdate =
  u_airdropStatus :: AirdropStatus
  u_airdropTxid :: "string option"
  u_airdropAmountSats :: "int option"
  u_airdropSentAt :: "string option"

definition updateProspectAirdrop :: "world \<Rightarrow> int \<Rightarrow> AirdropUpdate \<Rightarrow> state \<Rightarrow> state" where
  "updateProspectAirdrop w i d s =
     update_rows i (\<lambda>r. r\<lparr>airdropStatus := u_airdropStatus d,
        airdropTxid := coalesce (u_airdropTxid d) (airdropTxid r),
        airdropAmountSats := coalesce (u_airdropAmountSats d) (airdropAmountSats r),
        airdropSentAt := coalesce (u_airdropSentAt d) (airdropSentAt r),
        updatedAt := now_sql w\<rparr>) s"

definition logActivity :: "string \<Rightarrow> int \<Rightarrow> details \<Rightarrow> state \<Rightarrow> state" where
  "logActivity a i d s =
     s\<lparr>activity_log := activity_log s @ [\<lparr>action = a, prospect_id = Some i, log_details = d\<rparr>]\<rparr>"

definition record_call :: "ext_call \<Rightarrow> state \<Rightarrow> state" where
  "record_call c s = s\<lparr>calls := calls s @ [c]\<rparr>"

subsection \<open>Daily limits\<close>

text \<open>
  Each function takes the date that \<open>getTodayDate()\<close> returns during the call. A
  new row gets the column defaults, both counters 0. The \<open>UPDATE\<close> touches the row
  of that date only, and the closing \<open>SELECT\<close> reads the counter back: reading a
  column of a missing row would raise, which is the \<open>Inl\<close> result.
\<close>

datatype error = TypeError

definition getDailyLimits :: "string \<Rightarrow> state \<Rightarrow> DailyLimits \<times> state" where
  "getDailyLimits d s =
     (case daily_limits s d of
        Some row \<Rightarrow>
          (\<lparr>date = d, prsOpened = prs_opened row, airdropsSent = airdrops_sent row\<rparr>, s)
      | None \<Rightarrow>
          (\<lparr>date = d, prsOpened = 0, airdropsSent = 0\<rparr>,
           s\<lparr>daily_limits := (daily_limits s)(d \<mapsto> \<lparr>prs_opened = 0, airdrops_sent = 0\<rparr>)\<rparr>))"

definition update_daily :: "string \<Rightarrow> (DailyLimitsRow \<Rightarrow> DailyLimitsRow) \<Rightarrow> state \<Rightarrow> state" where
  "update_daily d f s =
     (case daily_limits s d of
        None \<Rightarrow> s
      | Some row \<Rightarrow> s\<lparr>daily_limits := (daily_limits s)(d \<mapsto> f row)\<rparr>)"

definition incrementDailyPRs :: "string \<Rightarrow> state \<Rightarrow> (error + int) \<times> state" where
  "incrementDailyPRs d s =
     (let s1 = snd (getDailyLimits d s);
          s2 = update_daily d (\<lambda>row. row\<lparr>prs_opened := prs_opened row + 1\<rparr>) s1
      in (case daily_limits s2 d of None \<Rightarrow> Inl TypeError | Some row \<Rightarrow> Inr (prs_opened row), s2))"

definition incrementDailyAirdrops :: "string \<Rightarrow> state \<Rightarrow> (error + int) \<times> state" where
  "incrementDailyAirdrops d s =
     (let s1 = snd (getDailyLimits d s);
          s2 = update_daily d (\<lambda>row. row\<lparr>airdrops_sent := airdrops_sent row + 1\<rparr>) s1
      in (case daily_limits s2 d of None \<Rightarrow> Inl TypeError | Some row \<Rightarrow> Inr (airdrops_sent row), s2))"

text \<open>The operations on the ledger, for statements about every sequence of them.\<close>

datatype ledger_op = GetDailyLimits | IncrementDailyPRs | IncrementDailyAirdrops

fun ledger_step :: "state \<Rightarrow> string \<times> ledger_op \<Rightarrow> state" where
  "ledger_step s (d, GetDailyLimits) = snd (getDailyLimits d s)"
| "ledger_step s (d, IncrementDailyPRs) = snd (incrementDailyPRs d s)"
| "ledger_step s (d, IncrementDailyAirdrops) = snd (incrementDailyAirdrops d s)"

definition ledger_run :: "state \<Rightarrow> (string \<times> ledger_op) list \<Rightarrow> state" where
  "ledger_run s ops = foldl ledger_step s ops"

section \<open>github.ts: URL parsing\<close>

text \<open>
  \<open>regex_search\<close> tries an unanchored pattern at each start position from the left.
  The groups \<open>([^/]+)\<close> are greedy runs of non-slash characters; as the next pattern
  character is a slash, no shorter run can match, so there is one attempt per position.
\<close>

definition non_slash :: "char \<Rightarrow> bool" where
  "non_slash c = (c \<noteq> CHR ''/'')"

definition is_digit :: "char \<Rightarrow> bool" where
  "is_digit c = char_in CHR ''0'' CHR ''9'' c"

fun regex_search :: "(string \<Rightarrow> 'a option) \<Rightarrow> string \<Rightarrow> 'a option" where
  "regex_search m [] = m []"
| "regex_search m (c # cs) =
     (case m (c # cs) of Some x \<Rightarrow> Some x | None \<Rightarrow> regex_search m cs)"

definition strip_git :: "string \<Rightarrow> string" where
  "strip_git s =
     (if 4 \<le> length s \<and> drop (length s - 4) s = ''.git'' then take (length s - 4) s else s)"

definition parseRepoUrl_at :: "string \<Rightarrow> (string \<times> string) option" where
  "parseRepoUrl_at s =
     (if prefix ''github.com/'' s then
        (let r = drop 11 s; owner = takeWhile non_slash r; r1 = dropWhile non_slash r
         in if owner \<noteq> [] \<and> prefix ''/'' r1 then
              (let repo = takeWhile non_slash (drop 1 r1)
               in if repo \<noteq> [] then Some (owner, repo) else None)
            else None)
      else None)"

definition parseRepoUrl :: "string \<Rightarrow> (string \<times> string) option" where
  "parseRepoUrl u =
     (case regex_search parseRepoUrl_at u of
        None \<Rightarrow> None
      | Some (owner, repo) \<Rightarrow> Some (owner, strip_git repo))"

definition int_of_digits :: "string \<Rightarrow> int" where
  "int_of_digits ds = foldl (\<lambda>n c. 10 * n + (int (of_char c) - 48)) 0 ds"

definition parsePRUrl_at :: "string \<Rightarrow> (string \<times> string \<times> int) option" where
  "parsePRUrl_at s =
     (if prefix ''github.com/'' s then
        (let r = drop 11 s; owner = takeWhile non_slash r; r1 = dropWhile non_slash r
         in if owner \<noteq> [] \<and> prefix ''/'' r1 then
              (let r2 = drop 1 r1; repo = takeWhile non_slash r2; r3 = dropWhile non_slash r2
               in if repo \<noteq> [] \<and> prefix ''/pull/'' r3 then
                    (let ds = takeWhile is_digit (drop 6 r3)
                     in if ds \<noteq> [] then Some (owner, repo, int_of_digits ds) else None)
                  else None)
            else None)
      else None)"

definition parsePRUrl :: "string \<Rightarrow> (string \<times> string \<times> int) option" where
  "parsePRUrl u = regex_search parsePRUrl_at u"

section \<open>config.ts\<close>

record Config =
  maxDailyPRs :: int
  maxDailyAirdrops :: int
  airdropTierA :: int
  airdropTierB :: int
  airdropTierC :: int

text \<open>\<open>getAirdropAmount\<close> is declared for the tiers A, B and C only.\<close>

fun getAirdropAmount :: "Config \<Rightarrow> Tier \<Rightarrow> int option" where
  "getAirdropAmount cfg A = Some (airdropTierA cfg)"
| "getAirdropAmount cfg B = Some (airdropTierB cfg)"
| "getAirdropAmount cfg C = Some (airdropTierC cfg)"
| "getAirdropAmount cfg D = None"

section \<open>airdrop.ts: the payout engine\<close>

definition MIN_TREASURY_BALANCE :: int where
  "MIN_TREASURY_BALANCE = 100000"

record AirdropOptions =
  a_pending :: "bool option"
  a_limit :: "int option"
  a_prospectId :: "int option"
  a_amount :: "int option"

record AirdropTransaction =
  t_prospectId :: int
  recipient :: string
  amountSats :: int
  memo :: string
  txid :: "string option"
  t_status :: AirdropStatus
  broadcastAt :: "string option"
  confirmedAt :: "string option"
  blockHeight :: "int option"

record AirdropResult =
  ar_sent :: nat
  ar_confirmed :: nat
  ar_failed :: nat
  ar_skipped :: nat
  transactions :: "AirdropTransaction list"

definition empty_result :: AirdropResult where
  "empty_result = \<lparr>ar_sent = 0, ar_confirmed = 0, ar_failed = 0, ar_skipped = 0, transactions = []\<rparr>"

text \<open>
  \<open>sendSbtc\<close> catches everything: an exception while building or broadcasting and a
  rejected broadcast both become the error result; an accepted broadcast returns the
  transaction id, prefixed with \<open>0x\<close> when it is non-empty and lacks the prefix.
\<close>

definition sendSbtc :: "world \<Rightarrow> string \<Rightarrow> int \<Rightarrow> string \<Rightarrow> state \<Rightarrow> (string + string) \<times> state" where
  "sendSbtc w rcpt amount mm s =
     (case broadcast w (calls s) rcpt amount mm of
        Thrown msg \<Rightarrow> Inl msg
      | Rejected e reason \<Rightarrow> Inl (''Broadcast failed: '' @ e @ '' - '' @ reason)
      | Accepted t \<Rightarrow> Inr (if t \<noteq> [] \<and> \<not> prefix ''0x'' t then ''0x'' @ t else t),
      record_call (SendSbtc rcpt amount (take 34 mm)) s)"

text \<open>
  The polling loop of \<open>waitForConfirmation\<close>: \<open>attempt\<close> counts up, \<open>k\<close> is the
  number of attempts left; a response that is neither a success nor an abort, a failed
  request and a non-ok response all go on to the next attempt.
\<close>

fun waitForConfirmation_loop ::
  "world \<Rightarrow> string \<Rightarrow> nat \<Rightarrow> nat \<Rightarrow> state \<Rightarrow> (bool \<times> int option) \<times> state" where
  "waitForConfirmation_loop w t attempt 0 s = ((False, None), s)"
| "waitForConfirmation_loop w t attempt (Suc k) s =
     (let s1 = record_call (TxStatus t attempt) s
      in case tx_status w (calls s) t attempt of
           TxSuccess h \<Rightarrow> ((True, h), s1)
         | TxAborted \<Rightarrow> ((False, None), s1)
         | TxOther \<Rightarrow> waitForConfirmation_loop w t (Suc attempt) k s1)"

definition waitForConfirmation :: "world \<Rightarrow> string \<Rightarrow> state \<Rightarrow> (bool \<times> int option) \<times> state" where
  "waitForConfirmation w t s = waitForConfirmation_loop w t 0 24 s"

text \<open>The best-effort comment on the prospect's pull request; its errors are swallowed.\<close>

definition post_comment :: "Prospect \<Rightarrow> state \<Rightarrow> state" where
  "post_comment p s =
     (if truthy_str (prUrl p) then
        (case parsePRUrl (case prUrl p of None \<Rightarrow> [] | Some u \<Rightarrow> u) of
           None \<Rightarrow> s
         | Some (owner, repo, n) \<Rightarrow> record_call (PostPRComment owner repo n) s)
      else s)"

definition airdrop_memo :: string where
  "airdrop_memo = ''Appleseed airdrop - welcome to Bitcoin agents!''"

definition processAirdrop ::
  "world \<Rightarrow> Prospect \<Rightarrow> int \<Rightarrow> state \<Rightarrow> AirdropTransaction \<times> state" where
  "processAirdrop w p amount s =
     (let tx = \<lparr>t_prospectId = id_p p,
                recipient = (case stacksAddress p of None \<Rightarrow> [] | Some a \<Rightarrow> a),
                amountSats = amount, memo = airdrop_memo, txid = None, t_status = Pending,
                broadcastAt = None, confirmedAt = None, blockHeight = None\<rparr>;
          (result, s1) = sendSbtc w (recipient tx) (amountSats tx) (memo tx) s
      in case result of
           Inl err \<Rightarrow>
             (let s2 = updateProspectAirdrop w (id_p p)
                         \<lparr>u_airdropStatus = Failed, u_airdropTxid = None,
                          u_airdropAmountSats = None, u_airdropSentAt = None\<rparr> s1;
                  s3 = logActivity ''airdrop:failed'' (id_p p)
                         (AirdropFailedDetails err (amountSats tx)) s2
              in (tx\<lparr>t_status := Failed\<rparr>, post_comment p s3))
         | Inr t \<Rightarrow>
             (let tx1 = tx\<lparr>txid := Some t, t_status := Sent, broadcastAt := Some (now_iso w)\<rparr>;
                  s2 = updateProspectAirdrop w (id_p p)
                         \<lparr>u_airdropStatus = Sent, u_airdropTxid = Some t,
                          u_airdropAmountSats = Some (amountSats tx1),
                          u_airdropSentAt = broadcastAt tx1\<rparr> s1;
                  (confirmation, s3) = waitForConfirmation w t s2
              in if fst confirmation then
                   (let tx2 = tx1\<lparr>t_status := Confirmed, confirmedAt := Some (now_iso w),
                                  blockHeight := snd confirmation\<rparr>;
                        s4 = updateProspectAirdrop w (id_p p)
                               \<lparr>u_airdropStatus = Confirmed, u_airdropTxid = None,
                                u_airdropAmountSats = None, u_airdropSentAt = None\<rparr> s3;
                        s5 = logActivity ''airdrop:confirmed'' (id_p p)
                               (AirdropConfirmedDetails t (amountSats tx2) (blockHeight tx2)) s4
                    in (tx2, post_comment p s5))
                 else (tx1, s3)))"

text \<open>
  The amount of one payout: the override when it is truthy, else the tier amount for a
  tier other than D, else the tier C amount (also when the amount so far is 0).
\<close>

definition airdrop_amount :: "Config \<Rightarrow> int option \<Rightarrow> Prospect \<Rightarrow> int" where
  "airdrop_amount cfg overrideAmount p =
     (let amount1 =
            (if \<not> truthy_num overrideAmount then
               (case tier p of None \<Rightarrow> overrideAmount | Some t \<Rightarrow>
                  (if t \<noteq> D then getAirdropAmount cfg t else overrideAmount))
             else overrideAmount)
      in if \<not> truthy_num amount1 then airdropTierC cfg
         else (case amount1 of None \<Rightarrow> airdropTierC cfg | Some a \<Rightarrow> a))"

text \<open>
  The treasury balance is \<open>parseInt\<close> of the balance string, \<open>None\<close> for
  \<open>NaN\<close>; a comparison with \<open>NaN\<close> is false.
\<close>

definition balance_below :: "int option \<Rightarrow> int \<Rightarrow> int \<Rightarrow> bool" where
  "balance_below bal amount floor =
     (case bal of None \<Rightarrow> False | Some b \<Rightarrow> b - amount < floor)"

text \<open>
  The loop over the candidates. Each candidate is the row as it was read before the
  loop. The value \<open>incrementDailyAirdrops\<close> returns is not used by the loop.
\<close>

fun airdrop_loop ::
  "world \<Rightarrow> Config \<Rightarrow> int option \<Rightarrow> int option \<Rightarrow> Prospect list \<Rightarrow> AirdropResult \<Rightarrow> state
     \<Rightarrow> AirdropResult \<times> state" where
  "airdrop_loop w cfg overrideAmount bal [] res s = (res, s)"
| "airdrop_loop w cfg overrideAmount bal (p # ps) res s =
     (if \<not> truthy_str (stacksAddress p) \<or> \<not> addressValid p then
        airdrop_loop w cfg overrideAmount bal ps (res\<lparr>ar_skipped := ar_skipped res + 1\<rparr>) s
      else if airdropStatus p \<noteq> Pending then
        airdrop_loop w cfg overrideAmount bal ps (res\<lparr>ar_skipped := ar_skipped res + 1\<rparr>) s
      else
        (let amount = airdrop_amount cfg overrideAmount p
         in if balance_below bal amount MIN_TREASURY_BALANCE then
              airdrop_loop w cfg overrideAmount bal ps (res\<lparr>ar_skipped := ar_skipped res + 1\<rparr>) s
            else
              (let (tx, s1) = processAirdrop w p amount s;
                   res1 = res\<lparr>transactions := transactions res @ [tx]\<rparr>
               in if t_status tx = Confirmed then
                    airdrop_loop w cfg overrideAmount bal ps
                      (res1\<lparr>ar_confirmed := ar_confirmed res1 + 1, ar_sent := ar_sent res1 + 1\<rparr>)
                      (snd (incrementDailyAirdrops (today w) s1))
                  else if t_status tx = Sent then
                    airdrop_loop w cfg overrideAmount bal ps
                      (res1\<lparr>ar_sent := ar_sent res1 + 1\<rparr>)
                      (snd (incrementDailyAirdrops (today w) s1))
                  else
                    airdrop_loop w cfg overrideAmount bal ps
                      (res1\<lparr>ar_failed := ar_failed res1 + 1\<rparr>) s1)))"

text \<open>
  \<open>prospects.slice(0, n)\<close>: a negative \<open>n\<close> counts from the end of the array.
\<close>

definition slice0 :: "int \<Rightarrow> 'a list \<Rightarrow> 'a list" where
  "slice0 n xs = (if n < 0 then take (nat (int (length xs) + n)) xs else take (nat n) xs)"

definition airdrop_candidates :: "AirdropOptions \<Rightarrow> state \<Rightarrow> Prospect list" where
  "airdrop_candidates opts s =
     (if truthy_num (a_prospectId opts) then
        (case getProspectById (case a_prospectId opts of None \<Rightarrow> 0 | Some i \<Rightarrow> i) s of
           None \<Rightarrow> [] | Some p \<Rightarrow> [p])
      else if (case a_pending opts of None \<Rightarrow> True | Some b \<Rightarrow> b) then
        filter (\<lambda>p. addressValid p \<and> truthy_str (stacksAddress p))
          (getProspects (no_filters\<lparr>f_airdropStatus := Some Pending\<rparr>) s)
      else [])"

text \<open>
  \<open>airdrop\<close>. A failure of the wallet-address derivation or of the balance request
  is not caught: it is the \<open>Inl\<close> result, and what was written before stays written.
\<close>

definition airdrop :: "world \<Rightarrow> AirdropOptions \<Rightarrow> Config \<Rightarrow> state \<Rightarrow> (string + AirdropResult) \<times> state" where
  "airdrop w opts cfg s =
     (let limit = (case a_limit opts of None \<Rightarrow> 5 | Some l \<Rightarrow> l);
          (dailyLimits, s1) = getDailyLimits (today w) s;
          remaining = maxDailyAirdrops cfg - airdropsSent dailyLimits
      in if remaining \<le> 0 then (Inr empty_result, s1)
         else
           (let effectiveLimit = min limit remaining;
                s2 = record_call GetWalletAddress s1
            in case wallet_address w of
                 Inl err \<Rightarrow> (Inl err, s2)
               | Inr treasuryAddress \<Rightarrow>
                   (let s3 = record_call (GetWalletInfo treasuryAddress) s2
                    in case wallet_info w treasuryAddress of
                         Inl err \<Rightarrow> (Inl err, s3)
                       | Inr treasuryBalance \<Rightarrow>
                           if balance_below treasuryBalance 0 MIN_TREASURY_BALANCE
                           then (Inr empty_result, s3)
                           else
                             (let (res, s4) =
                                    airdrop_loop w cfg (a_amount opts) treasuryBalance
                                      (slice0 effectiveLimit (airdrop_candidates opts s3))
                                      empty_result s3
                              in (Inr res, s4)))))"

section \<open>qualifier.ts: the batch\<close>

record QualifyOptions =
  q_pending :: bool
  q_prospectId :: "int option"
  q_minTier :: "Tier option"

record QualifyResult =
  qr_qualified :: nat
  qr_skipped :: nat
  qr_results :: "(Prospect \<times> QualificationResult) list"

fun tierOrder :: "Tier \<Rightarrow> nat" where
  "tierOrder A = 0"
| "tierOrder B = 1"
| "tierOrder C = 2"
| "tierOrder D = 3"

definition below_minTier :: "Tier option \<Rightarrow> Tier \<Rightarrow> bool" where
  "below_minTier minTier t =
     (case minTier of None \<Rightarrow> False | Some m \<Rightarrow> tierOrder t > tierOrder m)"

definition qualify_candidates :: "QualifyOptions \<Rightarrow> state \<Rightarrow> Prospect list" where
  "qualify_candidates opts s =
     (if truthy_num (q_prospectId opts) then
        (case getProspectById (case q_prospectId opts of None \<Rightarrow> 0 | Some i \<Rightarrow> i) s of
           None \<Rightarrow> [] | Some p \<Rightarrow> [p])
      else if q_pending opts then getProspects (no_filters\<lparr>f_pendingQualification := True\<rparr>) s
      else getProspects no_filters s)"

text \<open>The loop of \<open>qualify\<close>; the clock of the whole run is read as \<open>now_ms\<close>.\<close>

fun qualify_loop ::
  "world \<Rightarrow> QualifyOptions \<Rightarrow> Prospect list \<Rightarrow> QualifyResult \<Rightarrow> state \<Rightarrow> QualifyResult \<times> state" where
  "qualify_loop w opts [] res s = (res, s)"
| "qualify_loop w opts (p # ps) res s =
     (if tier p \<noteq> None \<and> \<not> truthy_num (q_prospectId opts) then
        qualify_loop w opts ps (res\<lparr>qr_skipped := qr_skipped res + 1\<rparr>) s
      else
        (let result = qualifyProspect (now_ms w) p
         in if below_minTier (q_minTier opts) (q_tier result) then
              qualify_loop w opts ps (res\<lparr>qr_skipped := qr_skipped res + 1\<rparr>) s
            else
              (let s1 = updateProspectScore w (id_p p) (q_score result) (q_tier result) s;
                   s2 = logActivity ''qualify:scored'' (id_p p)
                          (QualifyScoredDetails (q_score result) (q_tier result) (breakdown result)) s1
               in qualify_loop w opts ps
                    (res\<lparr>qr_results := qr_results res @ [(p, result)],
                         qr_qualified := qr_qualified res + 1\<rparr>) s2)))"

definition qualify :: "world \<Rightarrow> QualifyOptions \<Rightarrow> state \<Rightarrow> QualifyResult \<times> state" where
  "qualify w opts s =
     qualify_loop w opts (qualify_candidates opts s)
       \<lparr>qr_qualified = 0, qr_skipped = 0, qr_results = []\<rparr> s"

section \<open>outreach.ts\<close>

text \<open>
  The comparator of \<open>selectTargetRepo\<close>. A repository with a non-empty matched query
  comes first; then, when both dates are valid and more than seven days apart, the more
  recent one; else the one with more stars.
\<close>

definition repo_compare :: "MatchedRepo \<Rightarrow> MatchedRepo \<Rightarrow> int" where
  "repo_compare a b =
     (let aQuery = (if matchedQuery a \<noteq> [] then 1 else 0 :: int);
          bQuery = (if matchedQuery b \<noteq> [] then 1 else 0 :: int)
      in if aQuery \<noteq> bQuery then bQuery - aQuery
         else (case (lastUpdated a, lastUpdated b) of
                 (Some aDate, Some bDate) \<Rightarrow>
                   if \<bar>aDate - bDate\<bar> > 7 * 24 * 60 * 60 * 1000 then bDate - aDate
                   else int (stars b) - int (stars a)
               | _ \<Rightarrow> int (stars b) - int (stars a)))"

text \<open>
  \<open>Array.prototype.sort\<close> with a comparator, as a stable insertion sort: an element
  goes before the first later element it does not compare greater than. On two elements
  every conforming sort gives this result.
\<close>

fun insert_by :: "('a \<Rightarrow> 'a \<Rightarrow> int) \<Rightarrow> 'a \<Rightarrow> 'a list \<Rightarrow> 'a list" where
  "insert_by cmp x [] = [x]"
| "insert_by cmp x (y # ys) = (if cmp x y \<le> 0 then x # y # ys else y # insert_by cmp x ys)"

fun sort_by :: "('a \<Rightarrow> 'a \<Rightarrow> int) \<Rightarrow> 'a list \<Rightarrow> 'a list" where
  "sort_by cmp [] = []"
| "sort_by cmp (x # xs) = insert_by cmp x (sort_by cmp xs)"

fun split_slash :: "string \<Rightarrow> string list" where
  "split_slash [] = [[]]"
| "split_slash (c # cs) =
     (if c = CHR ''/'' then [] # split_slash cs
      else (case split_slash cs of [] \<Rightarrow> [[c]] | part # parts \<Rightarrow> (c # part) # parts))"

text \<open>What \<open>selectTargetRepo\<close> returns once \<open>best\<close> is chosen.\<close>

definition target_of :: "MatchedRepo \<Rightarrow> (string \<times> string) option" where
  "target_of best =
     (case parseRepoUrl (url best) of
        Some parsed \<Rightarrow> Some parsed
      | None \<Rightarrow>
          (case split_slash (fullName best) of
             [owner, repo] \<Rightarrow> Some (owner, repo)
           | _ \<Rightarrow> None))"

definition selectTargetRepo :: "Prospect \<Rightarrow> (string \<times> string) option" where
  "selectTargetRepo p =
     (if length (repos p) = 0 then None
      else (case sort_by repo_compare (repos p) of
              [] \<Rightarrow> None
            | best # _ \<Rightarrow> target_of best))"

record OutreachOptions =
  o_tier :: "Tier option"
  o_limit :: "int option"
  o_dryRun :: "bool option"
  o_prospectId :: "int option"

datatype RecordStatus = RPending | Delivered | RFailed | RateLimited

record OutreachRecord =
  r_prospectId :: int
  r_githubUsername :: string
  r_targetRepo :: string
  r_prUrl :: "string option"
  r_prNumber :: "int option"
  r_status :: RecordStatus
  personalizationUsed :: "string list"
  templateVersion :: string
  r_createdAt :: string
  deliveredAt :: "string option"
  errorMessage :: "string option"

record OutreachResult =
  or_sent :: nat
  or_failed :: nat
  or_skipped :: nat
  records :: "OutreachRecord list"

text \<open>
  The calls to the code host, in order; the first one that raises ends the sequence with
  its message.
\<close>

fun gh_run :: "world \<Rightarrow> ext_call list \<Rightarrow> state \<Rightarrow> string option \<times> state" where
  "gh_run w [] s = (None, s)"
| "gh_run w (c # cs) s =
     (case gh w (calls s) c of
        Some err \<Rightarrow> (Some err, record_call c s)
      | None \<Rightarrow> gh_run w cs (record_call c s))"

text \<open>
  \<open>sendOutreach\<close>. The value \<open>incrementDailyPRs\<close> returns is not used.
\<close>

definition sendOutreach :: "world \<Rightarrow> Prospect \<Rightarrow> bool \<Rightarrow> state \<Rightarrow> OutreachRecord \<times> state" where
  "sendOutreach w p dryRun s =
     (let rec = \<lparr>r_prospectId = id_p p, r_githubUsername = githubUsername p, r_targetRepo = [],
                 r_prUrl = None, r_prNumber = None, r_status = RPending,
                 personalizationUsed = [], templateVersion = ''v2.0'',
                 r_createdAt = now_iso w, deliveredAt = None, errorMessage = None\<rparr>
      in case selectTargetRepo p of
           None \<Rightarrow>
             (rec\<lparr>r_status := RFailed, errorMessage := Some ''No suitable repository found''\<rparr>, s)
         | Some (owner, repo) \<Rightarrow>
             (let qualification = qualifyProspect (now_ms w) p;
                  rec1 = rec\<lparr>r_targetRepo := owner @ ''/'' @ repo,
                             personalizationUsed := personalizationHooks qualification\<rparr>
              in if dryRun then (rec1\<lparr>r_status := RPending\<rparr>, s)
                 else
                   (case gh_run w [GetAuthenticatedUser, ForkRepo owner repo,
                            CreateBranch (auth_user w) repo, CreateFile (auth_user w) repo,
                            CreatePR owner repo] s of
                      (Some err, s1) \<Rightarrow>
                        (rec1\<lparr>r_status := RFailed, errorMessage := Some err\<rparr>,
                         logActivity ''outreach:failed'' (id_p p) (OutreachFailedDetails err) s1)
                    | (None, s1) \<Rightarrow>
                        (let pr = created_pr w (calls s1) owner repo;
                             rec2 = rec1\<lparr>r_prUrl := Some (fst pr), r_prNumber := Some (snd pr),
                                        r_status := Delivered, deliveredAt := Some (now_iso w)\<rparr>;
                             s2 = updateProspectOutreach w (id_p p)
                                    \<lparr>u_outreachStatus = PrOpened,
                                     u_targetRepo = Some (r_targetRepo rec2),
                                     u_prUrl = r_prUrl rec2, u_prNumber = r_prNumber rec2,
                                     u_prOpenedAt = deliveredAt rec2\<rparr> s1;
                             s3 = snd (incrementDailyPRs (today w) s2);
                             s4 = logActivity ''outreach:pr_created'' (id_p p)
                                    (OutreachPrCreatedDetails (r_prUrl rec2) (q_tier qualification)) s3
                         in (rec2, s4)))))"

fun outreach_loop ::
  "world \<Rightarrow> bool \<Rightarrow> Prospect list \<Rightarrow> OutreachResult \<Rightarrow> state \<Rightarrow> OutreachResult \<times> state" where
  "outreach_loop w dryRun [] res s = (res, s)"
| "outreach_loop w dryRun (p # ps) res s =
     (if outreachStatus p \<noteq> OPending then
        outreach_loop w dryRun ps (res\<lparr>or_skipped := or_skipped res + 1\<rparr>) s
      else
        (let (rec, s1) = sendOutreach w p dryRun s;
             res1 = res\<lparr>records := records res @ [rec]\<rparr>
         in if r_status rec = Delivered then
              outreach_loop w dryRun ps (res1\<lparr>or_sent := or_sent res1 + 1\<rparr>) s1
            else if r_status rec = RFailed then
              outreach_loop w dryRun ps (res1\<lparr>or_failed := or_failed res1 + 1\<rparr>) s1
            else outreach_loop w dryRun ps res1 s1))"

definition outreach_candidates :: "OutreachOptions \<Rightarrow> int \<Rightarrow> state \<Rightarrow> Prospect list" where
  "outreach_candidates opts effectiveLimit s =
     filter (\<lambda>p. tier p \<noteq> None \<and> tier p \<noteq> Some D)
       (if truthy_num (o_prospectId opts) then
          (case getProspectById (case o_prospectId opts of None \<Rightarrow> 0 | Some i \<Rightarrow> i) s of
             None \<Rightarrow> [] | Some p \<Rightarrow> [p])
        else getProspects \<lparr>f_tier = o_tier opts, f_outreachStatus = Some OPending,
               f_airdropStatus = None, f_pendingQualification = False,
               f_limit = Some effectiveLimit\<rparr> s)"

definition empty_outreach :: OutreachResult where
  "empty_outreach = \<lparr>or_sent = 0, or_failed = 0, or_skipped = 0, records = []\<rparr>"

definition outreach :: "world \<Rightarrow> OutreachOptions \<Rightarrow> Config \<Rightarrow> state \<Rightarrow> (string + OutreachResult) \<times> state" where
  "outreach w opts cfg s =
     (let limit = (case o_limit opts of None \<Rightarrow> 10 | Some l \<Rightarrow> l);
          dryRun = (case o_dryRun opts of None \<Rightarrow> False | Some b \<Rightarrow> b);
          s0 = (if \<not> dryRun then record_call CheckAuth s else s)
      in if \<not> dryRun \<and> \<not> check_auth w
         then (Inl ''GitHub CLI not authenticated. Run: gh auth login'', s0)
         else
           (let (dailyLimits, s1) = getDailyLimits (today w) s0;
                remaining = maxDailyPRs cfg - prsOpened dailyLimits
            in if \<not> dryRun \<and> remaining \<le> 0 then (Inr empty_outreach, s1)
               else
                 (let effectiveLimit = (if dryRun then limit else min limit remaining);
                      (res, s2) = outreach_loop w dryRun
                                    (outreach_candidates opts effectiveLimit s1) empty_outreach s1
                  in (Inr res, s2))))"

section \<open>Example data\<close>

definition example_repo :: MatchedRepo where
  "example_repo =
     \<lparr>name = ''my-mcp-server'', fullName = ''alice/my-mcp-server'',
      url = ''https://github.com/alice/my-mcp-server'', stars = 120,
      description = Some ''uses @modelcontextprotocol'',
      lastUpdated = Some (995 * day_ms), matchedQuery = ''mcp server''\<rparr>"

definition example_prospect :: Prospect where
  "example_prospect =
     \<lparr>id_p = 1, githubUsername = ''alice'', repos = [], score = 0, tier = None,
      outreachStatus = OPending, targetRepo = None, prUrl = None, prNumber = None,
      prOpenedAt = None, stacksAddress = None, addressValid = False,
      airdropStatus = Pending, airdropTxid = None, airdropAmountSats = None,
      airdropSentAt = None, updatedAt = ''2026-01-01 00:00:00''\<rparr>"

definition ledger0 :: state where
  "ledger0 =
     \<lparr>prospects = [],
      daily_limits = [''2026-01-01'' \<mapsto> \<lparr>prs_opened = 3, airdrops_sent = 4\<rparr>],
      activity_log = [], calls = []\<rparr>"

definition repo50 :: MatchedRepo where
  "repo50 =
     \<lparr>name = ''big'', fullName = ''alice/big'', url = ''https://github.com/alice/big.git'',
      stars = 50, description = None, lastUpdated = Some (10 * day_ms),
      matchedQuery = ''langchain''\<rparr>"

definition repo10 :: MatchedRepo where
  "repo10 =
     \<lparr>name = ''small'', fullName = ''alice/small'', url = ''https://github.com/alice/small'',
      stars = 10, description = None, lastUpdated = Some (12 * day_ms),
      matchedQuery = ''langchain''\<rparr>"

definition example_world :: world where
  "example_world =
     \<lparr>today = ''2026-01-02'', now_ms = 1000 * day_ms, now_iso = ''2026-01-02T12:00:00.000Z'',
      now_sql = ''2026-01-02 12:00:00'', wallet_address = Inr ''SP3TREASURY'',
      wallet_info = (\<lambda>a. Inr (Some 1000000)),
      broadcast = (\<lambda>trace rcpt amount mm. Accepted ''ab12''),
      tx_status = (\<lambda>trace t n. TxSuccess (Some 7)), check_auth = True,
      gh = (\<lambda>trace c. None), auth_user = ''appleseed'',
      created_pr =
        (\<lambda>trace owner repo. (''https://github.com/'' @ owner @ ''/'' @ repo @ ''/pull/1'', 1))\<rparr>"

definition example_config :: Config where
  "example_config =
     \<lparr>maxDailyPRs = 50, maxDailyAirdrops = 20, airdropTierA = 10000, airdropTierB = 5000,
      airdropTierC = 2500\<rparr>"

definition verified_prospect :: "int \<Rightarrow> AirdropStatus \<Rightarrow> Prospect" where
  "verified_prospect i st =
     example_prospect\<lparr>id_p := i, tier := Some A, outreachStatus := PrOpened,
       stacksAddress := Some ''SP2J6ZY48GV1EZ5V2V5RB9MP66SW86PYKKNRV9EJ7'',
       addressValid := True, airdropStatus := st\<rparr>"

definition store_of :: "Prospect list \<Rightarrow> state" where
  "store_of ps = \<lparr>prospects = ps, daily_limits = Map.empty, activity_log = [], calls = []\<rparr>"

definition capped_store :: state where
  "capped_store =
     (store_of [verified_prospect 1 Pending])
       \<lparr>daily_limits := [''2026-01-02'' \<mapsto> \<lparr>prs_opened = 0, airdrops_sent = 5\<rparr>]\<rparr>"

definition default_airdrop :: AirdropOptions where
  "default_airdrop = \<lparr>a_pending = None, a_limit = None, a_prospectId = None, a_amount = None\<rparr>"

text \<open>The rows of the \<open>prospects\<close> table with a given id.\<close>

definition rows_of :: "int \<Rightarrow> state \<Rightarrow> Prospect list" where
  "rows_of pid s = filter (\<lambda>r. id_p r = pid) (prospects s)"

text \<open>
  The broadcasts in a trace of external calls, and the broadcast that belongs to a
  transaction record.
\<close>

fun is_send :: "ext_call \<Rightarrow> bool" where
  "is_send (SendSbtc rcpt amount mm) = True"
| "is_send c = False"

definition sends :: "state \<Rightarrow> ext_call list" where
  "sends s = filter is_send (calls s)"

definition send_of :: "AirdropTransaction \<Rightarrow> ext_call" where
  "send_of t = SendSbtc (recipient t) (amountSats t) (take 34 (memo t))"

text \<open>Today's payout counter as \<open>getDailyLimits\<close> reads it: 0 when the row is missing.\<close>

definition sent_today :: "state \<Rightarrow> string \<Rightarrow> int" where
  "sent_today s d = (case daily_limits s d of None \<Rightarrow> 0 | Some row \<Rightarrow> airdrops_sent row)"

definition three_pending :: state where
  "three_pending =
     store_of [verified_prospect 1 Pending, verified_prospect 2 Pending,
               verified_prospect 3 Pending]"

definition tiered_prospect :: Prospect where
  "tiered_prospect = example_prospect\<lparr>score := 80, tier := Some A\<rparr>"

definition batch_qualify :: QualifyOptions where
  "batch_qualify = \<lparr>q_pending = True, q_prospectId = None, q_minTier = None\<rparr>"

definition unqualified_prospect :: Prospect where
  "unqualified_prospect = example_prospect\<lparr>tier := Some D, repos := [repo50]\<rparr>"

definition default_outreach :: OutreachOptions where
  "default_outreach = \<lparr>o_tier = None, o_limit = None, o_dryRun = None, o_prospectId = None\<rparr>"

section \<open>The scoring function\<close>

lemma scoreClaudeMcp_loop_range:
  "sc = 0 \<or> sc = 30 \<Longrightarrow> scoreClaudeMcp_loop rs sc = 0 \<or> scoreClaudeMcp_loop rs sc = 30"
  by (induction rs arbitrary: sc) (auto simp: Let_def WEIGHTS_CLAUDE_MCP_def)

lemma scoreClaudeMcp_range: "scoreClaudeMcp p = 0 \<or> scoreClaudeMcp p = 30"
  unfolding scoreClaudeMcp_def by (rule scoreClaudeMcp_loop_range) simp

lemma agent_fold_ge:
  "m \<le> foldl (\<lambda>m (pattern, points). if P pattern then max m points else m) (m::int) xs"
proof (induction xs arbitrary: m)
  case Nil
  show ?case by simp
next
  case (Cons x xs)
  obtain pattern points where x: "x = (pattern, points)" by (cases x)
  have "m \<le> (if P pattern then max m points else m)" by simp
  also have "\<dots> \<le> foldl (\<lambda>m (pattern, points). if P pattern then max m points else m)
      (if P pattern then max m points else m) xs"
    by (rule Cons.IH)
  finally show ?case by (simp add: x)
qed

lemma agent_repo_nonneg: "0 \<le> m \<Longrightarrow> 0 \<le> agent_repo r m"
  unfolding agent_repo_def
  using agent_fold_ge [of m "\<lambda>pattern. str_includes (combined r) pattern" agentIndicators]
  by simp

lemma agent_fold_nonneg: "0 \<le> m \<Longrightarrow> 0 \<le> foldl (\<lambda>m r. agent_repo r m) m rs"
  by (induction rs arbitrary: m) (simp_all add: agent_repo_nonneg)

lemma scoreAiAgent_range: "0 \<le> scoreAiAgent p \<and> scoreAiAgent p \<le> 25"
  using agent_fold_nonneg [of 0 "repos p"]
  by (simp add: scoreAiAgent_def WEIGHTS_AI_AGENT_def)

lemma scoreStars_range: "0 \<le> scoreStars p \<and> scoreStars p \<le> 15"
  by (simp add: scoreStars_def WEIGHTS_STARS_def)

lemma scoreActivity_range:
  "scoreActivity now p = 0 \<or> scoreActivity now p = 5 \<or> scoreActivity now p = 10
   \<or> scoreActivity now p = 15"
  by (simp add: scoreActivity_def WEIGHTS_ACTIVITY_def split: option.split)

lemma scoreCrypto_range: "scoreCrypto p = 0 \<or> scoreCrypto p = 5"
  by (simp add: scoreCrypto_def WEIGHTS_CRYPTO_def)

lemma example_lower:
  "toLowerCase (matchedQuery example_repo) = ''mcp server''"
  "toLowerCase (name example_repo) = ''my-mcp-server''"
  "toLowerCase (repo_desc example_repo) = ''uses @modelcontextprotocol''"
  by (simp_all add: example_repo_def repo_desc_def toLowerCase_def lower_char_def char_in_def)

lemma example_combined:
  "combined example_repo = ''mcp server my-mcp-server uses @modelcontextprotocol''"
  by (simp add: combined_def example_lower)

lemma example_scores:
  "scoreClaudeMcp (example_prospect\<lparr>repos := [example_repo]\<rparr>) = 30"
  "scoreAiAgent (example_prospect\<lparr>repos := [example_repo]\<rparr>) = 0"
  "scoreStars (example_prospect\<lparr>repos := [example_repo]\<rparr>) = 12"
  "scoreActivity (1000 * day_ms) (example_prospect\<lparr>repos := [example_repo]\<rparr>) = 15"
  "scoreCrypto (example_prospect\<lparr>repos := [example_repo]\<rparr>) = 0"
      apply (simp add: scoreClaudeMcp_def mcp_hit_def mcpIndicators_def example_lower
        WEIGHTS_CLAUDE_MCP_def)
     apply (simp add: scoreAiAgent_def agent_repo_def agentIndicators_def example_combined
        WEIGHTS_AI_AGENT_def)
    apply (simp add: scoreStars_def totalStars_def WEIGHTS_STARS_def example_repo_def)
   apply (simp add: scoreActivity_def mostRecentUpdate_def date_ge_def WEIGHTS_ACTIVITY_def
      example_repo_def day_ms_def)
  apply (simp add: scoreCrypto_def cryptoIndicators_def example_combined)
  done

lemma example_hooks:
  "generatePersonalizationHooks (example_prospect\<lparr>repos := [example_repo]\<rparr>)
     \<lparr>claudeMcp = 30, aiAgent = 0, b_stars = 12, activity = 15, followers = 0, crypto = 0\<rparr>
   = [''Works with Claude MCP'', ''120+ stars on AI projects'', ''Built my-mcp-server'']"
  by (simp add: generatePersonalizationHooks_def topRepo_def totalStars_def example_repo_def)

lemma example_qualify:
  "qualifyProspect (1000 * day_ms) (example_prospect\<lparr>repos := [example_repo]\<rparr>) =
     \<lparr>q_score = 57, q_tier = B,
      breakdown = \<lparr>claudeMcp = 30, aiAgent = 0, b_stars = 12, activity = 15, followers = 0,
                   crypto = 0\<rparr>,
      personalizationHooks =
        [''Works with Claude MCP'', ''120+ stars on AI projects'', ''Built my-mcp-server'']\<rparr>"
  by (simp add: qualifyProspect_def Let_def example_scores scoreFollowers_def getTier_def
      example_hooks)

text \<open>
  Claim C3. For every prospect and clock reading, the score \<open>qualifyProspect\<close> returns
  is the sum of the six sub-scores of its breakdown; the Claude/MCP score is 0 or 30, the
  agent score lies between 0 and 25, the star score is the minimum of 15 and the total
  star count divided by ten and rounded down, the activity score is 0, 5, 10 or 15, the
  follower score is 0 and the crypto score is 0 or 5; so the score lies between 0 and
  100; and the tier is A from 70 on, B from 40 on, C from 20 on and D below.
\<close>

theorem qualifyProspect_score:
  "q_score (qualifyProspect now p) =
     claudeMcp (breakdown (qualifyProspect now p)) + aiAgent (breakdown (qualifyProspect now p))
     + b_stars (breakdown (qualifyProspect now p)) + activity (breakdown (qualifyProspect now p))
     + followers (breakdown (qualifyProspect now p)) + crypto (breakdown (qualifyProspect now p))
   \<and> claudeMcp (breakdown (qualifyProspect now p)) \<in> {0, 30}
   \<and> 0 \<le> aiAgent (breakdown (qualifyProspect now p))
   \<and> aiAgent (breakdown (qualifyProspect now p)) \<le> 25
   \<and> b_stars (breakdown (qualifyProspect now p))
       = min (int (foldl (\<lambda>sum repo. sum + stars repo) 0 (repos p)) div 10) 15
   \<and> activity (breakdown (qualifyProspect now p)) \<in> {0, 5, 10, 15}
   \<and> followers (breakdown (qualifyProspect now p)) = 0
   \<and> crypto (breakdown (qualifyProspect now p)) \<in> {0, 5}
   \<and> 0 \<le> q_score (qualifyProspect now p) \<and> q_score (qualifyProspect now p) \<le> 100
   \<and> q_tier (qualifyProspect now p) =
       (if q_score (qualifyProspect now p) \<ge> 70 then A
        else if q_score (qualifyProspect now p) \<ge> 40 then B
        else if q_score (qualifyProspect now p) \<ge> 20 then C else D)"
proof -
  define r where "r = qualifyProspect now p"
  have f1: "claudeMcp (breakdown r) = scoreClaudeMcp p"
    and f2: "aiAgent (breakdown r) = scoreAiAgent p"
    and f3: "b_stars (breakdown r) = scoreStars p"
    and f4: "activity (breakdown r) = scoreActivity now p"
    and f5: "followers (breakdown r) = 0"
    and f6: "crypto (breakdown r) = scoreCrypto p"
    and f7: "q_score r = scoreClaudeMcp p + scoreAiAgent p + scoreStars p
               + scoreActivity now p + 0 + scoreCrypto p"
    and f8: "q_tier r = getTier (q_score r)"
    by (simp_all add: r_def qualifyProspect_def Let_def scoreFollowers_def)
  have st: "scoreStars p = min (int (foldl (\<lambda>sum repo. sum + stars repo) 0 (repos p)) div 10) 15"
    by (simp add: scoreStars_def totalStars_def WEIGHTS_STARS_def)
  have b1: "0 \<le> scoreClaudeMcp p \<and> scoreClaudeMcp p \<le> 30"
    using scoreClaudeMcp_range [of p] by auto
  have b4: "0 \<le> scoreActivity now p \<and> scoreActivity now p \<le> 15"
    using scoreActivity_range [of now p] by auto
  have b6: "0 \<le> scoreCrypto p \<and> scoreCrypto p \<le> 5"
    using scoreCrypto_range [of p] by auto
  have lo: "0 \<le> q_score r"
    using b1 scoreAiAgent_range [of p] scoreStars_range [of p] b4 b6
    unfolding f7 by linarith
  have hi: "q_score r \<le> 100"
    using b1 scoreAiAgent_range [of p] scoreStars_range [of p] b4 b6
    unfolding f7 by linarith
  have c1: "claudeMcp (breakdown r) \<in> {0, 30}"
    using scoreClaudeMcp_range [of p] by (simp add: f1)
  have c4: "activity (breakdown r) \<in> {0, 5, 10, 15}"
    using scoreActivity_range [of now p] by (simp add: f4)
  have c6: "crypto (breakdown r) \<in> {0, 5}"
    using scoreCrypto_range [of p] by (simp add: f6)
  have c2: "0 \<le> aiAgent (breakdown r) \<and> aiAgent (breakdown r) \<le> 25"
    using scoreAiAgent_range [of p] by (simp add: f2)
  have c3: "b_stars (breakdown r)
       = min (int (foldl (\<lambda>sum repo. sum + stars repo) 0 (repos p)) div 10) 15"
    using st by (simp only: f3)
  have sum: "q_score r = claudeMcp (breakdown r) + aiAgent (breakdown r) + b_stars (breakdown r)
      + activity (breakdown r) + followers (breakdown r) + crypto (breakdown r)"
    by (simp only: f1 f2 f3 f4 f5 f6 f7)
  have t: "q_tier r = (if q_score r \<ge> 70 then A else if q_score r \<ge> 40 then B
        else if q_score r \<ge> 20 then C else D)"
    by (simp only: f8 getTier_def)
  show ?thesis
    unfolding r_def [symmetric]
    apply (intro conjI)
    apply (rule sum)
    apply (rule c1)
    apply (rule conjunct1 [OF c2])
    apply (rule conjunct2 [OF c2])
    apply (rule c3)
    apply (rule c4)
    apply (rule f5)
    apply (rule c6)
    apply (rule lo)
    apply (rule hi)
    apply (rule t)
    done
qed

text \<open>
  The theorem at the prospect of the spec's scenario A: one repository named
  my-mcp-server, 120 stars, updated five days before the clock reading. The sub-scores
  are 30, 0, 12, 15, 0 and 0, the score is 57 and the tier is B.
\<close>

theorem qualifyProspect_score_witness:
  "q_score (qualifyProspect (1000 * day_ms) (example_prospect\<lparr>repos := [example_repo]\<rparr>)) = 57
   \<and> q_tier (qualifyProspect (1000 * day_ms) (example_prospect\<lparr>repos := [example_repo]\<rparr>)) = B
   \<and> breakdown (qualifyProspect (1000 * day_ms) (example_prospect\<lparr>repos := [example_repo]\<rparr>))
       = \<lparr>claudeMcp = 30, aiAgent = 0, b_stars = 12, activity = 15, followers = 0, crypto = 0\<rparr>"
  using qualifyProspect_score [of "1000 * day_ms" "example_prospect\<lparr>repos := [example_repo]\<rparr>"]
  by (simp add: example_qualify)

text \<open>
  Claim C9. For a prospect with no matched repository, \<open>qualifyProspect\<close> returns a
  result (none of its folds and loops raises on the empty list): every sub-score is 0,
  the activity score among them since no update date exists, no personalization hook is
  produced, the score is 0 and the tier is D.
\<close>

theorem qualifyProspect_empty:
  "repos p = [] \<Longrightarrow>
   qualifyProspect now p =
     \<lparr>q_score = 0, q_tier = D,
      breakdown = \<lparr>claudeMcp = 0, aiAgent = 0, b_stars = 0, activity = 0, followers = 0,
                   crypto = 0\<rparr>,
      personalizationHooks = []\<rparr>"
  by (simp add: qualifyProspect_def Let_def scoreClaudeMcp_def scoreAiAgent_def scoreStars_def
      totalStars_def scoreActivity_def mostRecentUpdate_def scoreFollowers_def scoreCrypto_def
      getTier_def generatePersonalizationHooks_def topRepo_def WEIGHTS_AI_AGENT_def
      WEIGHTS_STARS_def)

theorem qualifyProspect_empty_witness:
  "repos example_prospect = []
   \<and> qualifyProspect 0 example_prospect =
       \<lparr>q_score = 0, q_tier = D,
        breakdown = \<lparr>claudeMcp = 0, aiAgent = 0, b_stars = 0, activity = 0, followers = 0,
                     crypto = 0\<rparr>,
        personalizationHooks = []\<rparr>"
proof -
  have h: "repos example_prospect = []" by (simp add: example_prospect_def)
  show ?thesis using h qualifyProspect_empty [OF h, of 0] by simp
qed

section \<open>Address validation\<close>

lemma char_eq_nat: "(c = d) = ((of_char c :: nat) = of_char d)"
  by simp

lemma c32_class_set: "c32_class c \<longleftrightarrow> c \<in> set ''0123456789ABCDEFGHJKLMNPQRSTUVWXYZ''"
proof -
  obtain n :: nat where n: "n = of_char c" by simp
  have "c32_class c \<longleftrightarrow>
      (48 \<le> n \<and> n \<le> 57) \<or> (65 \<le> n \<and> n \<le> 72) \<or> (74 \<le> n \<and> n \<le> 78) \<or> (80 \<le> n \<and> n \<le> 90)"
    by (simp add: c32_class_def char_in_def n)
  also have "\<dots> \<longleftrightarrow> n \<in> {48,49,50,51,52,53,54,55,56,57,65,66,67,68,69,70,71,72,74,75,76,77,78,
      80,81,82,83,84,85,86,87,88,89,90}"
    by (simp only: insert_iff empty_iff) presburger
  also have "\<dots> \<longleftrightarrow> c \<in> set ''0123456789ABCDEFGHJKLMNPQRSTUVWXYZ''"
    unfolding n by (simp add: char_eq_nat [of c])
  finally show ?thesis .
qed

text \<open>
  Claim C4, as the code has it. \<open>isValidStacksAddress\<close> holds exactly for the strings
  made of \<open>SP\<close> or \<open>ST\<close> followed by 38 or 39 characters, each a digit or an
  upper-case letter other than \<open>I\<close> and \<open>O\<close>. A string with another prefix, another
  length or another character (a lower-case letter, \<open>I\<close>, \<open>O\<close>) is rejected; a
  body of 38 characters and the letter \<open>L\<close> are accepted.
\<close>

theorem isValidStacksAddress_iff:
  "isValidStacksAddress address \<longleftrightarrow>
     (\<exists>body. (address = ''SP'' @ body \<or> address = ''ST'' @ body)
        \<and> (length body = 38 \<or> length body = 39)
        \<and> set body \<subseteq> set ''0123456789ABCDEFGHJKLMNPQRSTUVWXYZ'')"
proof -
  have cls: "\<And>body. list_all c32_class body
      = (set body \<subseteq> set ''0123456789ABCDEFGHJKLMNPQRSTUVWXYZ'')"
    unfolding list_all_iff subset_iff using c32_class_set by blast
  show ?thesis
  proof
    assume "isValidStacksAddress address"
    then have "(take 2 address = ''SP'' \<or> take 2 address = ''ST'')
        \<and> (length (drop 2 address) = 38 \<or> length (drop 2 address) = 39)
        \<and> list_all c32_class (drop 2 address)"
      by (auto simp: isValidStacksAddress_def address_regex_def)
    moreover have "address = take 2 address @ drop 2 address" by simp
    ultimately show "\<exists>body. (address = ''SP'' @ body \<or> address = ''ST'' @ body)
          \<and> (length body = 38 \<or> length body = 39)
          \<and> set body \<subseteq> set ''0123456789ABCDEFGHJKLMNPQRSTUVWXYZ''"
      unfolding cls by metis
  next
    assume "\<exists>body. (address = ''SP'' @ body \<or> address = ''ST'' @ body)
          \<and> (length body = 38 \<or> length body = 39)
          \<and> set body \<subseteq> set ''0123456789ABCDEFGHJKLMNPQRSTUVWXYZ''"
    then obtain body where b: "address = ''SP'' @ body \<or> address = ''ST'' @ body"
        "length body = 38 \<or> length body = 39" "list_all c32_class body"
      unfolding cls [symmetric] by blast
    then show "isValidStacksAddress address"
      by (auto simp: isValidStacksAddress_def address_regex_def)
  qed
qed

text \<open>
  The theorem at the example address of the invitation comment, and at that address with
  a lower-case letter: the first is accepted, the second rejected.
\<close>

theorem isValidStacksAddress_iff_witness:
  "isValidStacksAddress ''SP2J6ZY48GV1EZ5V2V5RB9MP66SW86PYKKNRV9EJ7''
   \<and> \<not> isValidStacksAddress ''SP2J6ZY48GV1EZ5V2V5RB9MP66SW86PYKKNRV9Ej7''"
proof -
  have "(\<exists>body. (''SP2J6ZY48GV1EZ5V2V5RB9MP66SW86PYKKNRV9EJ7'' = ''SP'' @ body
            \<or> ''SP2J6ZY48GV1EZ5V2V5RB9MP66SW86PYKKNRV9EJ7'' = ''ST'' @ body)
        \<and> (length body = 38 \<or> length body = 39)
        \<and> set body \<subseteq> set ''0123456789ABCDEFGHJKLMNPQRSTUVWXYZ'')"
    by (rule exI [of _ "''2J6ZY48GV1EZ5V2V5RB9MP66SW86PYKKNRV9EJ7''"]) simp
  then have a: "isValidStacksAddress ''SP2J6ZY48GV1EZ5V2V5RB9MP66SW86PYKKNRV9EJ7''"
    by (simp only: isValidStacksAddress_iff)
  have b: "\<not> isValidStacksAddress ''SP2J6ZY48GV1EZ5V2V5RB9MP66SW86PYKKNRV9Ej7''"
    by (simp add: isValidStacksAddress_def address_regex_def c32_class_def char_in_def)
  show ?thesis using a b by simp
qed

text \<open>
  Claim C4 as stated fails on the code: a string of 40 characters, \<open>SP\<close> and 38 zeros,
  has a wrong length and is accepted, and a string of \<open>ST\<close> and 39 times the letter
  \<open>L\<close> is accepted.
\<close>

theorem isValidStacksAddress_counterexample:
  "isValidStacksAddress ''SP00000000000000000000000000000000000000''
   \<and> length ''SP00000000000000000000000000000000000000'' = 40
   \<and> isValidStacksAddress ''STLLLLLLLLLLLLLLLLLLLLLLLLLLLLLLLLLLLLLLL''"
  by (simp add: isValidStacksAddress_def address_regex_def c32_class_def char_in_def)

section \<open>The daily ledger\<close>

lemma getDailyLimits_daily:
  "daily_limits (snd (getDailyLimits d s)) =
     (case daily_limits s d of
        None \<Rightarrow> (daily_limits s)(d \<mapsto> \<lparr>prs_opened = 0, airdrops_sent = 0\<rparr>)
      | Some row \<Rightarrow> daily_limits s)"
  by (simp add: getDailyLimits_def split: option.split)

lemma incrementDailyPRs_daily:
  "daily_limits (snd (incrementDailyPRs d s)) =
     (daily_limits s)(d \<mapsto>
        (case daily_limits s d of
           None \<Rightarrow> \<lparr>prs_opened = 1, airdrops_sent = 0\<rparr>
         | Some row \<Rightarrow> row\<lparr>prs_opened := prs_opened row + 1\<rparr>))"
  by (simp add: incrementDailyPRs_def Let_def getDailyLimits_def update_daily_def
      split: option.split)

lemma incrementDailyAirdrops_daily:
  "daily_limits (snd (incrementDailyAirdrops d s)) =
     (daily_limits s)(d \<mapsto>
        (case daily_limits s d of
           None \<Rightarrow> \<lparr>prs_opened = 0, airdrops_sent = 1\<rparr>
         | Some row \<Rightarrow> row\<lparr>airdrops_sent := airdrops_sent row + 1\<rparr>))"
  by (simp add: incrementDailyAirdrops_def Let_def getDailyLimits_def update_daily_def
      split: option.split)

lemma increments_return:
  "fst (incrementDailyPRs d s) \<noteq> Inl e" "fst (incrementDailyAirdrops d s) \<noteq> Inl e"
  by (simp_all add: incrementDailyPRs_def incrementDailyAirdrops_def Let_def getDailyLimits_def
      update_daily_def split: option.split)

lemma ledger_step_other:
  "d' \<noteq> d \<Longrightarrow> daily_limits (ledger_step s (d, op)) d' = daily_limits s d'"
  by (cases op)
    (simp_all add: getDailyLimits_daily incrementDailyPRs_daily incrementDailyAirdrops_daily
      split: option.split)

lemma ledger_step_mono:
  "daily_limits s d' = Some r \<Longrightarrow>
   \<exists>r'. daily_limits (ledger_step s (d, op)) d' = Some r'
      \<and> prs_opened r \<le> prs_opened r' \<and> airdrops_sent r \<le> airdrops_sent r'"
  by (cases op)
    (auto simp: getDailyLimits_daily incrementDailyPRs_daily incrementDailyAirdrops_daily
      split: option.split)

lemma ledger_run_mono:
  "daily_limits s d' = Some r \<Longrightarrow>
   \<exists>r'. daily_limits (ledger_run s ops) d' = Some r'
      \<and> prs_opened r \<le> prs_opened r' \<and> airdrops_sent r \<le> airdrops_sent r'"
proof (induction ops arbitrary: s r)
  case Nil
  then show ?case by (simp add: ledger_run_def)
next
  case (Cons x ops)
  obtain d op where x: "x = (d, op)" by (cases x)
  from ledger_step_mono [OF Cons.prems, of d op]
  obtain r1 where r1: "daily_limits (ledger_step s (d, op)) d' = Some r1"
    "prs_opened r \<le> prs_opened r1" "airdrops_sent r \<le> airdrops_sent r1" by blast
  from Cons.IH [OF r1(1)]
  obtain r2 where r2: "daily_limits (ledger_run (ledger_step s (d, op)) ops) d' = Some r2"
    "prs_opened r1 \<le> prs_opened r2" "airdrops_sent r1 \<le> airdrops_sent r2" by blast
  have "ledger_run s (x # ops) = ledger_run (ledger_step s (d, op)) ops"
    by (simp add: ledger_run_def x)
  with r1 r2 show ?case by auto
qed

lemma ledger_run_other:
  "d' \<notin> fst ` set ops \<Longrightarrow> daily_limits (ledger_run s ops) d' = daily_limits s d'"
proof (induction ops arbitrary: s)
  case Nil
  then show ?case by (simp add: ledger_run_def)
next
  case (Cons x ops)
  obtain d op where x: "x = (d, op)" by (cases x)
  have ne: "d' \<noteq> d" using Cons.prems x by auto
  have "daily_limits (ledger_run s (x # ops)) d' = daily_limits (ledger_run (ledger_step s (d, op)) ops) d'"
    by (simp add: ledger_run_def x)
  also have "\<dots> = daily_limits (ledger_step s (d, op)) d'"
    using Cons.prems by (intro Cons.IH) auto
  also have "\<dots> = daily_limits s d'" by (rule ledger_step_other [OF ne])
  finally show ?case .
qed

text \<open>
  Claim C8. The first access of a date without a row creates the row with both counters
  0 (and an increment on such a date leaves the counter at 1); on a date with a row,
  \<open>getDailyLimits\<close> changes nothing and each increment adds 1 to its own counter of
  that row and leaves the other counter; an operation on date \<open>d\<close> leaves the row of
  every other date as it was; after any sequence of operations, a row that existed still
  exists with counters at least as large; and a date that no operation of the sequence
  names has its row unchanged.
\<close>

theorem daily_ledger_monotone:
  "(daily_limits s d = None \<longrightarrow>
      daily_limits (snd (getDailyLimits d s)) d = Some \<lparr>prs_opened = 0, airdrops_sent = 0\<rparr>
      \<and> fst (getDailyLimits d s) = \<lparr>date = d, prsOpened = 0, airdropsSent = 0\<rparr>
      \<and> daily_limits (snd (incrementDailyPRs d s)) d = Some \<lparr>prs_opened = 1, airdrops_sent = 0\<rparr>
      \<and> daily_limits (snd (incrementDailyAirdrops d s)) d
          = Some \<lparr>prs_opened = 0, airdrops_sent = 1\<rparr>)
   \<and> (daily_limits s d = Some row \<longrightarrow>
      snd (getDailyLimits d s) = s
      \<and> daily_limits (snd (incrementDailyPRs d s)) d
          = Some (row\<lparr>prs_opened := prs_opened row + 1\<rparr>)
      \<and> daily_limits (snd (incrementDailyAirdrops d s)) d
          = Some (row\<lparr>airdrops_sent := airdrops_sent row + 1\<rparr>))
   \<and> (d' \<noteq> d \<longrightarrow> daily_limits (ledger_step s (d, op)) d' = daily_limits s d')
   \<and> (daily_limits s d' = Some r \<longrightarrow>
        (\<exists>r'. daily_limits (ledger_run s ops) d' = Some r'
           \<and> prs_opened r \<le> prs_opened r' \<and> airdrops_sent r \<le> airdrops_sent r'))
   \<and> (d' \<notin> fst ` set ops \<longrightarrow> daily_limits (ledger_run s ops) d' = daily_limits s d')"
proof (intro conjI impI)
  assume "daily_limits s d = None"
  then show "daily_limits (snd (getDailyLimits d s)) d = Some \<lparr>prs_opened = 0, airdrops_sent = 0\<rparr>"
    "fst (getDailyLimits d s) = \<lparr>date = d, prsOpened = 0, airdropsSent = 0\<rparr>"
    "daily_limits (snd (incrementDailyPRs d s)) d = Some \<lparr>prs_opened = 1, airdrops_sent = 0\<rparr>"
    "daily_limits (snd (incrementDailyAirdrops d s)) d = Some \<lparr>prs_opened = 0, airdrops_sent = 1\<rparr>"
    by (simp_all add: getDailyLimits_daily incrementDailyPRs_daily incrementDailyAirdrops_daily
        getDailyLimits_def)
next
  assume "daily_limits s d = Some row"
  then show "snd (getDailyLimits d s) = s"
    "daily_limits (snd (incrementDailyPRs d s)) d = Some (row\<lparr>prs_opened := prs_opened row + 1\<rparr>)"
    "daily_limits (snd (incrementDailyAirdrops d s)) d
          = Some (row\<lparr>airdrops_sent := airdrops_sent row + 1\<rparr>)"
    by (simp_all add: incrementDailyPRs_daily incrementDailyAirdrops_daily getDailyLimits_def)
next
  assume "d' \<noteq> d"
  then show "daily_limits (ledger_step s (d, op)) d' = daily_limits s d'"
    by (rule ledger_step_other)
next
  assume "daily_limits s d' = Some r"
  then show "\<exists>r'. daily_limits (ledger_run s ops) d' = Some r'
           \<and> prs_opened r \<le> prs_opened r' \<and> airdrops_sent r \<le> airdrops_sent r'"
    by (rule ledger_run_mono)
next
  assume "d' \<notin> fst ` set ops"
  then show "daily_limits (ledger_run s ops) d' = daily_limits s d'"
    by (rule ledger_run_other)
qed


text \<open>
  The theorem on a ledger with one row, for 2026-01-01, and three increments on
  2026-01-02: the old row is unchanged and the new day's counters start from 0.
\<close>

theorem daily_ledger_monotone_witness:
  "daily_limits ledger0 ''2026-01-02'' = None
   \<and> daily_limits ledger0 ''2026-01-01'' = Some \<lparr>prs_opened = 3, airdrops_sent = 4\<rparr>
   \<and> ''2026-01-01'' \<notin> fst ` set [(''2026-01-02'', IncrementDailyAirdrops),
         (''2026-01-02'', IncrementDailyPRs), (''2026-01-02'', IncrementDailyAirdrops)]
   \<and> daily_limits (snd (incrementDailyAirdrops ''2026-01-02'' ledger0)) ''2026-01-02''
       = Some \<lparr>prs_opened = 0, airdrops_sent = 1\<rparr>
   \<and> daily_limits (ledger_run ledger0 [(''2026-01-02'', IncrementDailyAirdrops),
         (''2026-01-02'', IncrementDailyPRs), (''2026-01-02'', IncrementDailyAirdrops)])
         ''2026-01-01''
       = Some \<lparr>prs_opened = 3, airdrops_sent = 4\<rparr>
   \<and> daily_limits (ledger_run ledger0 [(''2026-01-02'', IncrementDailyAirdrops),
         (''2026-01-02'', IncrementDailyPRs), (''2026-01-02'', IncrementDailyAirdrops)])
         ''2026-01-02''
       = Some \<lparr>prs_opened = 1, airdrops_sent = 2\<rparr>"
proof -
  have h1: "daily_limits ledger0 ''2026-01-02'' = None"
    and h2: "daily_limits ledger0 ''2026-01-01'' = Some \<lparr>prs_opened = 3, airdrops_sent = 4\<rparr>"
    by (simp_all add: ledger0_def)
  have h3: "''2026-01-01'' \<notin> fst ` set [(''2026-01-02'', IncrementDailyAirdrops),
         (''2026-01-02'', IncrementDailyPRs), (''2026-01-02'', IncrementDailyAirdrops)]"
    by simp
  have e: "daily_limits (ledger_run ledger0 [(''2026-01-02'', IncrementDailyAirdrops),
         (''2026-01-02'', IncrementDailyPRs), (''2026-01-02'', IncrementDailyAirdrops)])
         ''2026-01-02''
       = Some \<lparr>prs_opened = 1, airdrops_sent = 2\<rparr>"
    by (simp add: ledger_run_def ledger0_def incrementDailyPRs_def incrementDailyAirdrops_def
        Let_def getDailyLimits_def update_daily_def)
  show ?thesis
    using daily_ledger_monotone [of ledger0 "''2026-01-02''" undefined "''2026-01-01''"
        IncrementDailyAirdrops "\<lparr>prs_opened = 3, airdrops_sent = 4\<rparr>"
        "[(''2026-01-02'', IncrementDailyAirdrops), (''2026-01-02'', IncrementDailyPRs),
          (''2026-01-02'', IncrementDailyAirdrops)]"]
      h1 h2 h3 e
    by simp
qed

section \<open>Target repository selection\<close>

lemma sort_two:
  "sort_by cmp [x, y] = (if cmp x y \<le> 0 then [x, y] else [y, x])"
  by simp

lemma cmp_stars:
  assumes "(matchedQuery x = []) = (matchedQuery y = [])"
    and "lastUpdated x = Some tx" and "lastUpdated y = Some ty"
    and "\<bar>tx - ty\<bar> \<le> 7 * day_ms"
  shows "repo_compare x y = int (stars y) - int (stars x)"
  using assms by (auto simp: repo_compare_def day_ms_def)

lemma cmp_recent:
  assumes "(matchedQuery x = []) = (matchedQuery y = [])"
    and "lastUpdated x = Some tx" and "lastUpdated y = Some ty"
    and "7 * day_ms < \<bar>tx - ty\<bar>"
  shows "repo_compare x y = ty - tx"
  using assms by (auto simp: repo_compare_def day_ms_def)

text \<open>
  Claim C7. Take two repositories \<open>x\<close> and \<open>y\<close> with valid dates that are both
  matched (or both not). When the dates are at most seven days apart and \<open>x\<close> has more
  stars, as with 50 against 10, the sorted list starts with \<open>x\<close> in whichever order
  the two are stored, also when \<open>y\<close> is the more recent, and \<open>selectTargetRepo\<close>
  returns the target parsed from \<open>x\<close>. When \<open>x\<close> is more recent by strictly more
  than seven days, \<open>x\<close> is selected whatever the star counts.
\<close>

theorem selectTargetRepo_two:
  assumes q: "(matchedQuery x = []) = (matchedQuery y = [])"
    and tx: "lastUpdated x = Some tx" and ty: "lastUpdated y = Some ty"
  shows "(\<bar>tx - ty\<bar> \<le> 7 * day_ms \<and> stars y < stars x \<longrightarrow>
            sort_by repo_compare [x, y] = [x, y] \<and> sort_by repo_compare [y, x] = [x, y]
            \<and> selectTargetRepo (p\<lparr>repos := [x, y]\<rparr>) = target_of x
            \<and> selectTargetRepo (p\<lparr>repos := [y, x]\<rparr>) = target_of x)
       \<and> (7 * day_ms < tx - ty \<longrightarrow>
            sort_by repo_compare [x, y] = [x, y] \<and> sort_by repo_compare [y, x] = [x, y]
            \<and> selectTargetRepo (p\<lparr>repos := [x, y]\<rparr>) = target_of x
            \<and> selectTargetRepo (p\<lparr>repos := [y, x]\<rparr>) = target_of x)"
proof (intro conjI impI)
  assume a: "\<bar>tx - ty\<bar> \<le> 7 * day_ms \<and> stars y < stars x"
  then have a': "\<bar>ty - tx\<bar> \<le> 7 * day_ms" by linarith
  have c1: "repo_compare x y = int (stars y) - int (stars x)"
    using cmp_stars [OF q tx ty] a by simp
  have c2: "repo_compare y x = int (stars x) - int (stars y)"
    using cmp_stars [OF q [symmetric] ty tx a'] by simp
  show s1: "sort_by repo_compare [x, y] = [x, y]" using a by (simp add: sort_two c1)
  show s2: "sort_by repo_compare [y, x] = [x, y]" using a by (simp add: sort_two c2)
  show "selectTargetRepo (p\<lparr>repos := [x, y]\<rparr>) = target_of x"
    by (simp add: selectTargetRepo_def s1 del: sort_by.simps insert_by.simps)
  show "selectTargetRepo (p\<lparr>repos := [y, x]\<rparr>) = target_of x"
    by (simp add: selectTargetRepo_def s2 del: sort_by.simps insert_by.simps)
next
  assume a: "7 * day_ms < tx - ty"
  then have g: "7 * day_ms < \<bar>tx - ty\<bar>" "7 * day_ms < \<bar>ty - tx\<bar>" by linarith+
  have pos: "0 < day_ms" by (simp add: day_ms_def)
  have c1: "repo_compare x y = ty - tx" by (rule cmp_recent [OF q tx ty g(1)])
  have c2: "repo_compare y x = tx - ty" by (rule cmp_recent [OF q [symmetric] ty tx g(2)])
  show s1: "sort_by repo_compare [x, y] = [x, y]" using a pos by (simp add: sort_two c1)
  show s2: "sort_by repo_compare [y, x] = [x, y]" using a pos by (simp add: sort_two c2)
  show "selectTargetRepo (p\<lparr>repos := [x, y]\<rparr>) = target_of x"
    by (simp add: selectTargetRepo_def s1 del: sort_by.simps insert_by.simps)
  show "selectTargetRepo (p\<lparr>repos := [y, x]\<rparr>) = target_of x"
    by (simp add: selectTargetRepo_def s2 del: sort_by.simps insert_by.simps)
qed

lemma target50: "target_of repo50 = Some (''alice'', ''big'')"
  by (simp add: target_of_def repo50_def parseRepoUrl_def parseRepoUrl_at_def non_slash_def
      strip_git_def Let_def)

text \<open>
  The theorem at a 50-star repository and a 10-star repository updated two days later:
  the 50-star repository is the target in both storage orders.
\<close>

theorem selectTargetRepo_two_witness:
  "(matchedQuery repo50 = []) = (matchedQuery repo10 = [])
   \<and> lastUpdated repo50 = Some (10 * day_ms) \<and> lastUpdated repo10 = Some (12 * day_ms)
   \<and> \<bar>10 * day_ms - 12 * day_ms\<bar> \<le> 7 * day_ms \<and> stars repo10 < stars repo50
   \<and> stars repo50 = 50 \<and> stars repo10 = 10
   \<and> selectTargetRepo (example_prospect\<lparr>repos := [repo50, repo10]\<rparr>) = Some (''alice'', ''big'')
   \<and> selectTargetRepo (example_prospect\<lparr>repos := [repo10, repo50]\<rparr>) = Some (''alice'', ''big'')"
proof -
  have q: "(matchedQuery repo50 = []) = (matchedQuery repo10 = [])"
    and tx: "lastUpdated repo50 = Some (10 * day_ms)"
    and ty: "lastUpdated repo10 = Some (12 * day_ms)"
    and st: "stars repo50 = 50" "stars repo10 = 10"
    by (simp_all add: repo50_def repo10_def)
  have g: "\<bar>10 * day_ms - 12 * day_ms\<bar> \<le> 7 * day_ms" by (simp add: day_ms_def)
  show ?thesis
    using selectTargetRepo_two [OF q tx ty, of example_prospect] q tx ty g st target50
    by simp
qed

section \<open>What the store operations leave unchanged\<close>

lemma record_call_frame [simp]:
  "prospects (record_call c s) = prospects s"
  "daily_limits (record_call c s) = daily_limits s"
  "activity_log (record_call c s) = activity_log s"
  "calls (record_call c s) = calls s @ [c]"
  by (simp_all add: record_call_def)

lemma logActivity_frame [simp]:
  "prospects (logActivity a i d s) = prospects s"
  "daily_limits (logActivity a i d s) = daily_limits s"
  "calls (logActivity a i d s) = calls s"
  by (simp_all add: logActivity_def)

lemma update_rows_frame [simp]:
  "daily_limits (update_rows i f s) = daily_limits s"
  "activity_log (update_rows i f s) = activity_log s"
  "calls (update_rows i f s) = calls s"
  "prospects (update_rows i f s) = map (\<lambda>r. if id_p r = i then f r else r) (prospects s)"
  by (simp_all add: update_rows_def)

lemma getDailyLimits_frame [simp]:
  "prospects (snd (getDailyLimits d s)) = prospects s"
  "activity_log (snd (getDailyLimits d s)) = activity_log s"
  "calls (snd (getDailyLimits d s)) = calls s"
  by (simp_all add: getDailyLimits_def split: option.split)

lemma update_daily_frame [simp]:
  "prospects (update_daily d f s) = prospects s"
  "activity_log (update_daily d f s) = activity_log s"
  "calls (update_daily d f s) = calls s"
  by (simp_all add: update_daily_def split: option.split)

lemma incrementDailyAirdrops_frame [simp]:
  "prospects (snd (incrementDailyAirdrops d s)) = prospects s"
  "activity_log (snd (incrementDailyAirdrops d s)) = activity_log s"
  "calls (snd (incrementDailyAirdrops d s)) = calls s"
  by (simp_all add: incrementDailyAirdrops_def Let_def)

lemma incrementDailyPRs_frame [simp]:
  "prospects (snd (incrementDailyPRs d s)) = prospects s"
  "activity_log (snd (incrementDailyPRs d s)) = activity_log s"
  "calls (snd (incrementDailyPRs d s)) = calls s"
  by (simp_all add: incrementDailyPRs_def Let_def)

lemma post_comment_frame [simp]:
  "prospects (post_comment p s) = prospects s"
  "daily_limits (post_comment p s) = daily_limits s"
  "activity_log (post_comment p s) = activity_log s"
  by (simp_all add: post_comment_def split: option.split prod.split)

lemma waitForConfirmation_loop_frame [simp]:
  "prospects (snd (waitForConfirmation_loop w t a k s)) = prospects s"
  "daily_limits (snd (waitForConfirmation_loop w t a k s)) = daily_limits s"
  "activity_log (snd (waitForConfirmation_loop w t a k s)) = activity_log s"
  by (induction k arbitrary: a s; simp add: Let_def split: poll_outcome.split)+

lemma sendSbtc_frame [simp]:
  "prospects (snd (sendSbtc w r a m s)) = prospects s"
  "daily_limits (snd (sendSbtc w r a m s)) = daily_limits s"
  "activity_log (snd (sendSbtc w r a m s)) = activity_log s"
  by (simp_all add: sendSbtc_def)

lemma rows_of_cong:
  "prospects (s'::state) = prospects (s::state) \<Longrightarrow> rows_of pid s' = rows_of pid s"
  by (simp add: rows_of_def)

lemma filter_map_other:
  "i \<noteq> pid \<Longrightarrow> (\<And>r. id_p (f r) = id_p r) \<Longrightarrow>
   filter (\<lambda>r. id_p r = pid) (map (\<lambda>r. if id_p r = i then f r else r) xs)
     = filter (\<lambda>r. id_p r = pid) xs"
  by (induction xs) auto

lemma rows_of_update_other:
  "i \<noteq> pid \<Longrightarrow> (\<And>r. id_p (f r) = id_p r) \<Longrightarrow> rows_of pid (update_rows i f s) = rows_of pid s"
  by (simp add: rows_of_def filter_map_other)

lemma rows_of_updateProspectAirdrop:
  "i \<noteq> pid \<Longrightarrow> rows_of pid (updateProspectAirdrop w i d s) = rows_of pid s"
  unfolding updateProspectAirdrop_def by (rule rows_of_update_other) simp_all

lemma rows_of_updateProspectScore:
  "i \<noteq> pid \<Longrightarrow> rows_of pid (updateProspectScore w i sc t s) = rows_of pid s"
  unfolding updateProspectScore_def by (rule rows_of_update_other) simp_all

lemma rows_of_updateProspectOutreach:
  "i \<noteq> pid \<Longrightarrow> rows_of pid (updateProspectOutreach w i d s) = rows_of pid s"
  unfolding updateProspectOutreach_def by (rule rows_of_update_other) simp_all

lemma rows_of_frame [simp]:
  "rows_of pid (record_call c s) = rows_of pid s"
  "rows_of pid (logActivity a i d s) = rows_of pid s"
  "rows_of pid (post_comment p s) = rows_of pid s"
  "rows_of pid (snd (getDailyLimits dd s)) = rows_of pid s"
  "rows_of pid (snd (incrementDailyAirdrops dd s)) = rows_of pid s"
  "rows_of pid (snd (incrementDailyPRs dd s)) = rows_of pid s"
  "rows_of pid (snd (waitForConfirmation_loop w t n k s)) = rows_of pid s"
  "rows_of pid (snd (sendSbtc w rc am mm s)) = rows_of pid s"
  by (simp_all add: rows_of_def)

lemma processAirdrop_rows:
  "id_p q \<noteq> pid \<Longrightarrow> rows_of pid (snd (processAirdrop w q amount s)) = rows_of pid s"
  by (simp add: processAirdrop_def Let_def split_beta waitForConfirmation_def
      rows_of_updateProspectAirdrop split: sum.split)

lemma processAirdrop_id:
  "t_prospectId (fst (processAirdrop w q amount s)) = id_p q"
  by (simp add: processAirdrop_def Let_def split_beta split: sum.split)

lemma airdrop_loop_settled:
  "(\<And>q. q \<in> set qs \<Longrightarrow> id_p q = pid \<Longrightarrow> airdropStatus q \<noteq> Pending) \<Longrightarrow>
   rows_of pid (snd (airdrop_loop w cfg ov bal qs res s)) = rows_of pid s
   \<and> (\<forall>t \<in> set (transactions (fst (airdrop_loop w cfg ov bal qs res s))).
         t_prospectId t = pid \<longrightarrow> t \<in> set (transactions res))"
proof (induction qs arbitrary: res s)
  case Nil
  show ?case by simp
next
  case (Cons q qs)
  have IH: "\<And>res s. rows_of pid (snd (airdrop_loop w cfg ov bal qs res s)) = rows_of pid s
     \<and> (\<forall>t \<in> set (transactions (fst (airdrop_loop w cfg ov bal qs res s))).
         t_prospectId t = pid \<longrightarrow> t \<in> set (transactions res))"
    using Cons.prems by (intro Cons.IH) auto
  show ?case
  proof (cases "\<not> truthy_str (stacksAddress q) \<or> \<not> addressValid q \<or> airdropStatus q \<noteq> Pending
      \<or> balance_below bal (airdrop_amount cfg ov q) MIN_TREASURY_BALANCE")
    case True
    then have "airdrop_loop w cfg ov bal (q # qs) res s
        = airdrop_loop w cfg ov bal qs (res\<lparr>ar_skipped := ar_skipped res + 1\<rparr>) s"
      by (auto simp: Let_def)
    then show ?thesis using IH [of "res\<lparr>ar_skipped := ar_skipped res + 1\<rparr>" s] by simp
  next
    case False
    then have pend: "airdropStatus q = Pending" by simp
    then have ne: "id_p q \<noteq> pid" using Cons.prems [of q] by auto
    define tx where "tx = fst (processAirdrop w q (airdrop_amount cfg ov q) s)"
    define s1 where "s1 = snd (processAirdrop w q (airdrop_amount cfg ov q) s)"
    have pa: "processAirdrop w q (airdrop_amount cfg ov q) s = (tx, s1)"
      by (simp add: tx_def s1_def)
    have txid: "t_prospectId tx \<noteq> pid" using ne by (simp add: tx_def processAirdrop_id)
    have r1: "rows_of pid s1 = rows_of pid s"
      unfolding s1_def by (rule processAirdrop_rows [OF ne])
    obtain res' s' where step: "airdrop_loop w cfg ov bal (q # qs) res s
        = airdrop_loop w cfg ov bal qs res' s'"
      and rs: "rows_of pid s' = rows_of pid s"
      and tr: "set (transactions res') = insert tx (set (transactions res))"
      using False pa r1 by (cases "t_status tx = Confirmed"; cases "t_status tx = Sent") (auto simp: Let_def)
    show ?thesis
      unfolding step using IH [of res' s'] rs tr txid by auto
  qed
qed


lemma find_filter:
  "find P xs = (case filter P xs of [] \<Rightarrow> None | x # _ \<Rightarrow> Some x)"
  by (induction xs) auto

lemma getProspectById_rows:
  "getProspectById i s = (case rows_of i s of [] \<Rightarrow> None | r # _ \<Rightarrow> Some r)"
  by (simp add: getProspectById_def rows_of_def find_filter)

lemma rows_of_distinct:
  "distinct (map id_p (prospects s)) \<Longrightarrow> p \<in> set (prospects s) \<Longrightarrow> rows_of (id_p p) s = [p]"
proof -
  assume d: "distinct (map id_p (prospects s))" and p: "p \<in> set (prospects s)"
  have "\<And>xs. distinct (map id_p xs) \<Longrightarrow> p \<in> set xs \<Longrightarrow> filter (\<lambda>r. id_p r = id_p p) xs = [p]"
  proof -
    fix xs :: "Prospect list"
    show "distinct (map id_p xs) \<Longrightarrow> p \<in> set xs \<Longrightarrow> filter (\<lambda>r. id_p r = id_p p) xs = [p]"
    proof (induction xs)
      case Nil
      then show ?case by simp
    next
      case (Cons x xs)
      show ?case
      proof (cases "x = p")
        case True
        have "filter (\<lambda>r. id_p r = id_p p) xs = []"
          using Cons.prems(1) True by (auto simp: filter_empty_conv image_iff)
        then show ?thesis using True by simp
      next
        case False
        then have pin: "p \<in> set xs" using Cons.prems(2) by simp
        then have "id_p x \<noteq> id_p p" using Cons.prems(1) by (auto simp: image_iff)
        then show ?thesis using Cons.IH pin Cons.prems(1) by simp
      qed
    qed
  qed
  from this [OF d p] show ?thesis by (simp add: rows_of_def)
qed

lemma getProspects_subset: "set (getProspects f s) \<subseteq> set (prospects s)"
  by (auto simp: getProspects_def Let_def sql_limit_def split: option.split dest: in_set_takeD)

lemma getProspects_airdrop_pending:
  "q \<in> set (getProspects (no_filters\<lparr>f_airdropStatus := Some Pending\<rparr>) s)
   \<Longrightarrow> airdropStatus q = Pending"
  by (auto simp: getProspects_def Let_def sql_limit_def row_matches_def no_filters_def
      split: option.split_asm if_split_asm dest: in_set_takeD)

lemma getProspectById_in:
  "getProspectById i s = Some q \<Longrightarrow> q \<in> set (prospects s) \<and> id_p q = i"
  by (auto simp: getProspectById_def find_Some_iff)

lemma airdrop_candidates_subset:
  "set (airdrop_candidates opts s) \<subseteq> set (prospects s)"
  using getProspects_subset [of "no_filters\<lparr>f_airdropStatus := Some Pending\<rparr>" s]
  by (auto simp: airdrop_candidates_def truthy_num_def split: option.split
      dest: getProspectById_in getProspectById_in [OF sym])

lemma slice0_subset: "set (slice0 n xs) \<subseteq> set xs"
  by (auto simp: slice0_def dest: in_set_takeD)

lemma airdrop_candidates_cong:
  "prospects (s'::state) = prospects (s::state) \<Longrightarrow>
   airdrop_candidates opts s' = airdrop_candidates opts s"
  by (simp add: airdrop_candidates_def getProspects_def getProspectById_def)

lemma airdrop_rows:
  assumes settled: "\<And>q. q \<in> set (prospects s) \<Longrightarrow> id_p q = pid \<Longrightarrow> airdropStatus q \<noteq> Pending"
  shows "rows_of pid (snd (airdrop w opts cfg s)) = rows_of pid s
    \<and> (\<forall>r. fst (airdrop w opts cfg s) = Inr r \<longrightarrow> (\<forall>t \<in> set (transactions r). t_prospectId t \<noteq> pid))"
proof -
  have loop: "\<And>e ov bal (s3::state). prospects s3 = prospects s \<Longrightarrow>
      rows_of pid (snd (airdrop_loop w cfg ov bal (slice0 e (airdrop_candidates opts s3)) empty_result s3))
        = rows_of pid s
      \<and> (\<forall>t \<in> set (transactions (fst (airdrop_loop w cfg ov bal
            (slice0 e (airdrop_candidates opts s3)) empty_result s3))). t_prospectId t \<noteq> pid)"
  proof -
    fix e ov bal and s3 :: state
    assume eq: "prospects s3 = prospects s"
    have sub: "\<And>q. q \<in> set (slice0 e (airdrop_candidates opts s3)) \<Longrightarrow> q \<in> set (prospects s)"
      using slice0_subset [of e "airdrop_candidates opts s3"] airdrop_candidates_subset [of opts s3] eq
      by auto
    have "rows_of pid (snd (airdrop_loop w cfg ov bal (slice0 e (airdrop_candidates opts s3)) empty_result s3))
        = rows_of pid s3
      \<and> (\<forall>t \<in> set (transactions (fst (airdrop_loop w cfg ov bal
            (slice0 e (airdrop_candidates opts s3)) empty_result s3))).
            t_prospectId t = pid \<longrightarrow> t \<in> set (transactions empty_result))"
      by (rule airdrop_loop_settled) (use sub settled in blast)
    then show "rows_of pid (snd (airdrop_loop w cfg ov bal (slice0 e (airdrop_candidates opts s3)) empty_result s3))
        = rows_of pid s
      \<and> (\<forall>t \<in> set (transactions (fst (airdrop_loop w cfg ov bal
            (slice0 e (airdrop_candidates opts s3)) empty_result s3))). t_prospectId t \<noteq> pid)"
      using rows_of_cong [OF eq, of pid] by (auto simp: empty_result_def)
  qed
  have er: "transactions empty_result = []" by (simp add: empty_result_def)
  have loop1: "\<And>e ov bal (s3::state). prospects s3 = prospects s \<Longrightarrow>
      rows_of pid (snd (airdrop_loop w cfg ov bal (slice0 e (airdrop_candidates opts s3)) empty_result s3))
        = rows_of pid s"
    using loop by blast
  have loop2: "\<And>e ov bal (s3::state) t.
      t \<in> set (transactions (fst (airdrop_loop w cfg ov bal
            (slice0 e (airdrop_candidates opts s3)) empty_result s3))) \<Longrightarrow>
      prospects s3 = prospects s \<Longrightarrow> t_prospectId t \<noteq> pid"
    using loop by blast
  show ?thesis
    by (auto simp: airdrop_def Let_def split_beta er loop1 split: sum.split dest: loop2)
qed


lemma airdrop_by_id_skipped:
  assumes g: "getProspectById i s = Some p" and i: "i \<noteq> 0" and st: "airdropStatus p \<noteq> Pending"
    and cap: "airdropsSent (fst (getDailyLimits (today w) s)) < maxDailyAirdrops cfg"
    and lim: "1 \<le> (case a_limit opts of None \<Rightarrow> 5 | Some l \<Rightarrow> l)"
    and wa: "wallet_address w = Inr addr" and wi: "wallet_info w addr = Inr bal"
    and bal: "\<not> balance_below bal 0 MIN_TREASURY_BALANCE"
    and o: "a_prospectId opts = Some i"
  shows "airdrop w opts cfg s =
     (Inr \<lparr>ar_sent = 0, ar_confirmed = 0, ar_failed = 0, ar_skipped = 1, transactions = []\<rparr>,
      record_call (GetWalletInfo addr) (record_call GetWalletAddress (snd (getDailyLimits (today w) s))))"
proof -
  define s3 where "s3 = record_call (GetWalletInfo addr)
      (record_call GetWalletAddress (snd (getDailyLimits (today w) s)))"
  define e where "e = min (case a_limit opts of None \<Rightarrow> 5 | Some l \<Rightarrow> l)
      (maxDailyAirdrops cfg - airdropsSent (fst (getDailyLimits (today w) s)))"
  have e1: "1 \<le> e" using cap lim by (simp add: e_def)
  have "getProspectById i s3 = Some p"
    using g by (simp add: getProspectById_def s3_def)
  then have c: "airdrop_candidates opts s3 = [p]"
    using o i by (simp add: airdrop_candidates_def truthy_num_def)
  have sl: "slice0 e [p] = [p]" using e1 by (simp add: slice0_def)
  have lp: "airdrop_loop w cfg (a_amount opts) bal [p] empty_result s3
      = (\<lparr>ar_sent = 0, ar_confirmed = 0, ar_failed = 0, ar_skipped = 1, transactions = []\<rparr>, s3)"
    using st by (simp add: empty_result_def)
  show ?thesis
    using cap wa wi bal
    by (simp add: airdrop_def Let_def split_beta s3_def [symmetric] e_def [symmetric] c sl lp
        del: airdrop_loop.simps)
qed

lemma sends_frame [simp]:
  "sends (logActivity a i d s) = sends s"
  "sends (update_rows i f s) = sends s"
  "sends (snd (getDailyLimits dd s)) = sends s"
  "sends (snd (incrementDailyAirdrops dd s)) = sends s"
  "sends (record_call c s) = sends s @ (if is_send c then [c] else [])"
  by (simp_all add: sends_def)

lemma sends_post_comment [simp]: "sends (post_comment p s) = sends s"
  by (simp add: post_comment_def split: option.split prod.split)

lemma sends_waitForConfirmation_loop [simp]:
  "sends (snd (waitForConfirmation_loop w t a k s)) = sends s"
  by (induction k arbitrary: a s) (simp_all add: Let_def split: poll_outcome.split)

lemma processAirdrop_sends:
  "sends (snd (processAirdrop w p amount s))
     = sends s @ [send_of (fst (processAirdrop w p amount s))]"
  by (simp add: processAirdrop_def Let_def split_beta sendSbtc_def waitForConfirmation_def
      updateProspectAirdrop_def send_of_def split: sum.split)

lemma airdrop_loop_sends:
  "\<exists>new. transactions (fst (airdrop_loop w cfg ov bal qs res s)) = transactions res @ new
      \<and> sends (snd (airdrop_loop w cfg ov bal qs res s)) = sends s @ map send_of new"
proof (induction qs arbitrary: res s)
  case Nil
  show ?case by simp
next
  case (Cons q qs)
  show ?case
  proof (cases "\<not> truthy_str (stacksAddress q) \<or> \<not> addressValid q \<or> airdropStatus q \<noteq> Pending
      \<or> balance_below bal (airdrop_amount cfg ov q) MIN_TREASURY_BALANCE")
    case True
    then have "airdrop_loop w cfg ov bal (q # qs) res s
        = airdrop_loop w cfg ov bal qs (res\<lparr>ar_skipped := ar_skipped res + 1\<rparr>) s"
      by (auto simp: Let_def)
    then show ?thesis using Cons.IH [of "res\<lparr>ar_skipped := ar_skipped res + 1\<rparr>" s] by simp
  next
    case False
    define tx where "tx = fst (processAirdrop w q (airdrop_amount cfg ov q) s)"
    define s1 where "s1 = snd (processAirdrop w q (airdrop_amount cfg ov q) s)"
    have pa: "processAirdrop w q (airdrop_amount cfg ov q) s = (tx, s1)"
      by (simp add: tx_def s1_def)
    have sn: "sends s1 = sends s @ [send_of tx]"
      unfolding s1_def tx_def by (rule processAirdrop_sends)
    obtain res' s' where step: "airdrop_loop w cfg ov bal (q # qs) res s
        = airdrop_loop w cfg ov bal qs res' s'"
      and tr: "transactions res' = transactions res @ [tx]"
      and ss: "sends s' = sends s @ [send_of tx]"
      using False pa sn
      by (cases "t_status tx = Confirmed"; cases "t_status tx = Sent") (auto simp: Let_def)
    from Cons.IH [of res' s'] obtain new where
      n: "transactions (fst (airdrop_loop w cfg ov bal qs res' s')) = transactions res' @ new"
         "sends (snd (airdrop_loop w cfg ov bal qs res' s')) = sends s' @ map send_of new"
      by blast
    show ?thesis
      unfolding step using n tr ss by (intro exI [of _ "tx # new"]) simp
  qed
qed

lemma airdrop_sends:
  "sends (snd (airdrop w opts cfg s))
     = sends s @ (case fst (airdrop w opts cfg s) of
                    Inl err \<Rightarrow> [] | Inr r \<Rightarrow> map send_of (transactions r))"
proof -
  have er: "transactions empty_result = []" by (simp add: empty_result_def)
  have loop: "\<And>bal qs s3. sends (snd (airdrop_loop w cfg (a_amount opts) bal qs empty_result s3))
      = sends s3 @ map send_of (transactions (fst (airdrop_loop w cfg (a_amount opts) bal qs empty_result s3)))"
    using airdrop_loop_sends [of w cfg "a_amount opts" _ _ empty_result] by (auto simp: er)
  show ?thesis
    by (simp add: airdrop_def Let_def split_beta er loop split: sum.split)
qed

text \<open>
  Claim C1. Let the ids of the table be distinct (the primary key) and \<open>p\<close> be a row
  whose payout status is not \<open>pending\<close>. Then \<open>p\<close> is not in the set of pending
  rows the batch selects from, nor among the candidates of a run without a prospect id;
  after any run of \<open>airdrop\<close>, whatever its options and whatever the external services
  answer, the row with the id of \<open>p\<close> is still \<open>p\<close>, unchanged in every column; no
  transaction of the result is for \<open>p\<close>; a run that names \<open>p\<close> by its id and
  reaches the loop (daily budget left, a limit of at least 1, the treasury reachable and
  above the floor) returns one skip, no transaction, and has made no external call beyond
  the two treasury requests; and the broadcasts a run adds to the trace of external calls
  are exactly those of the transactions of its result, one each and in order, so none of
  them is for \<open>p\<close>.
\<close>

theorem airdrop_skips_settled:
  assumes d: "distinct (map id_p (prospects s))" and p: "p \<in> set (prospects s)"
    and st: "airdropStatus p \<noteq> Pending"
  shows "p \<notin> set (getProspects (no_filters\<lparr>f_airdropStatus := Some Pending\<rparr>) s)
    \<and> (\<not> truthy_num (a_prospectId opts) \<longrightarrow> p \<notin> set (airdrop_candidates opts s))
    \<and> getProspectById (id_p p) (snd (airdrop w opts cfg s)) = Some p
    \<and> (\<forall>r. fst (airdrop w opts cfg s) = Inr r \<longrightarrow>
          (\<forall>t \<in> set (transactions r). t_prospectId t \<noteq> id_p p))
    \<and> (a_prospectId opts = Some (id_p p) \<and> id_p p \<noteq> 0
        \<and> airdropsSent (fst (getDailyLimits (today w) s)) < maxDailyAirdrops cfg
        \<and> 1 \<le> (case a_limit opts of None \<Rightarrow> 5 | Some l \<Rightarrow> l)
        \<and> wallet_address w = Inr addr \<and> wallet_info w addr = Inr bal
        \<and> \<not> balance_below bal 0 MIN_TREASURY_BALANCE \<longrightarrow>
        fst (airdrop w opts cfg s)
          = Inr \<lparr>ar_sent = 0, ar_confirmed = 0, ar_failed = 0, ar_skipped = 1, transactions = []\<rparr>
        \<and> calls (snd (airdrop w opts cfg s)) = calls s @ [GetWalletAddress, GetWalletInfo addr])
    \<and> sends (snd (airdrop w opts cfg s))
        = sends s @ (case fst (airdrop w opts cfg s) of
                       Inl err \<Rightarrow> [] | Inr r \<Rightarrow> map send_of (transactions r))"
proof -
  have rows: "rows_of (id_p p) s = [p]" by (rule rows_of_distinct [OF d p])
  have settled: "\<And>q. q \<in> set (prospects s) \<Longrightarrow> id_p q = id_p p \<Longrightarrow> airdropStatus q \<noteq> Pending"
  proof -
    fix q assume "q \<in> set (prospects s)" "id_p q = id_p p"
    then have "q \<in> set (rows_of (id_p p) s)" by (simp add: rows_of_def)
    then have "q = p" by (simp add: rows)
    then show "airdropStatus q \<noteq> Pending" using st by simp
  qed
  have c1: "p \<notin> set (getProspects (no_filters\<lparr>f_airdropStatus := Some Pending\<rparr>) s)"
    using getProspects_airdrop_pending [of p s] st by blast
  have c2: "\<not> truthy_num (a_prospectId opts) \<longrightarrow> p \<notin> set (airdrop_candidates opts s)"
    using c1 by (auto simp: airdrop_candidates_def)
  from airdrop_rows [of s "id_p p" w opts cfg, OF settled]
  have r: "rows_of (id_p p) (snd (airdrop w opts cfg s)) = [p]"
    and c4: "\<forall>r. fst (airdrop w opts cfg s) = Inr r \<longrightarrow>
          (\<forall>t \<in> set (transactions r). t_prospectId t \<noteq> id_p p)"
    using rows by auto
  have c3: "getProspectById (id_p p) (snd (airdrop w opts cfg s)) = Some p"
    by (simp add: getProspectById_rows r)
  have g: "getProspectById (id_p p) s = Some p" by (simp add: getProspectById_rows rows)
  have c5: "a_prospectId opts = Some (id_p p) \<and> id_p p \<noteq> 0
        \<and> airdropsSent (fst (getDailyLimits (today w) s)) < maxDailyAirdrops cfg
        \<and> 1 \<le> (case a_limit opts of None \<Rightarrow> 5 | Some l \<Rightarrow> l)
        \<and> wallet_address w = Inr addr \<and> wallet_info w addr = Inr bal
        \<and> \<not> balance_below bal 0 MIN_TREASURY_BALANCE \<longrightarrow>
        fst (airdrop w opts cfg s)
          = Inr \<lparr>ar_sent = 0, ar_confirmed = 0, ar_failed = 0, ar_skipped = 1, transactions = []\<rparr>
        \<and> calls (snd (airdrop w opts cfg s)) = calls s @ [GetWalletAddress, GetWalletInfo addr]"
  proof
    assume a: "a_prospectId opts = Some (id_p p) \<and> id_p p \<noteq> 0
        \<and> airdropsSent (fst (getDailyLimits (today w) s)) < maxDailyAirdrops cfg
        \<and> 1 \<le> (case a_limit opts of None \<Rightarrow> 5 | Some l \<Rightarrow> l)
        \<and> wallet_address w = Inr addr \<and> wallet_info w addr = Inr bal
        \<and> \<not> balance_below bal 0 MIN_TREASURY_BALANCE"
    have "airdrop w opts cfg s =
     (Inr \<lparr>ar_sent = 0, ar_confirmed = 0, ar_failed = 0, ar_skipped = 1, transactions = []\<rparr>,
      record_call (GetWalletInfo addr) (record_call GetWalletAddress (snd (getDailyLimits (today w) s))))"
      by (rule airdrop_by_id_skipped [OF g _ st]) (use a in blast)+
    then show "fst (airdrop w opts cfg s)
          = Inr \<lparr>ar_sent = 0, ar_confirmed = 0, ar_failed = 0, ar_skipped = 1, transactions = []\<rparr>
        \<and> calls (snd (airdrop w opts cfg s)) = calls s @ [GetWalletAddress, GetWalletInfo addr]"
      by simp
  qed
  have c6: "sends (snd (airdrop w opts cfg s))
        = sends s @ (case fst (airdrop w opts cfg s) of
                       Inl err \<Rightarrow> [] | Inr r \<Rightarrow> map send_of (transactions r))"
    by (rule airdrop_sends)
  show ?thesis using c1 c2 c3 c4 c5 c6 by blast
qed


text \<open>
  The theorem on a table with a pending row and a confirmed, verified, tier A row (the
  spec's scenario D), in a run that names the confirmed row.
\<close>

theorem airdrop_skips_settled_witness:
  "distinct (map id_p (prospects (store_of [verified_prospect 1 Pending, verified_prospect 2 Confirmed])))
   \<and> verified_prospect 2 Confirmed
       \<in> set (prospects (store_of [verified_prospect 1 Pending, verified_prospect 2 Confirmed]))
   \<and> airdropStatus (verified_prospect 2 Confirmed) \<noteq> Pending
   \<and> addressValid (verified_prospect 2 Confirmed) \<and> tier (verified_prospect 2 Confirmed) = Some A
   \<and> getProspectById 2 (snd (airdrop example_world (default_airdrop\<lparr>a_prospectId := Some 2\<rparr>)
         example_config (store_of [verified_prospect 1 Pending, verified_prospect 2 Confirmed])))
       = Some (verified_prospect 2 Confirmed)
   \<and> fst (airdrop example_world (default_airdrop\<lparr>a_prospectId := Some 2\<rparr>)
         example_config (store_of [verified_prospect 1 Pending, verified_prospect 2 Confirmed]))
       = Inr \<lparr>ar_sent = 0, ar_confirmed = 0, ar_failed = 0, ar_skipped = 1, transactions = []\<rparr>"
proof -
  define s where "s = store_of [verified_prospect 1 Pending, verified_prospect 2 Confirmed]"
  have d: "distinct (map id_p (prospects s))"
    and p: "verified_prospect 2 Confirmed \<in> set (prospects s)"
    and st: "airdropStatus (verified_prospect 2 Confirmed) \<noteq> Pending"
    and v: "addressValid (verified_prospect 2 Confirmed)" "tier (verified_prospect 2 Confirmed) = Some A"
    and i: "id_p (verified_prospect 2 Confirmed) = 2"
    by (simp_all add: s_def store_of_def verified_prospect_def)
  have o: "a_prospectId (default_airdrop\<lparr>a_prospectId := Some 2\<rparr>) = Some 2"
    "(case a_limit (default_airdrop\<lparr>a_prospectId := Some 2\<rparr>) of None \<Rightarrow> 5 | Some l \<Rightarrow> l) = 5"
    by (simp_all add: default_airdrop_def)
  have g: "airdropsSent (fst (getDailyLimits (today example_world) s)) < maxDailyAirdrops example_config"
    by (simp add: getDailyLimits_def s_def store_of_def example_config_def)
  have w: "wallet_address example_world = Inr ''SP3TREASURY''"
    "wallet_info example_world ''SP3TREASURY'' = Inr (Some 1000000)"
    "\<not> balance_below (Some 1000000) 0 MIN_TREASURY_BALANCE"
    by (simp_all add: example_world_def balance_below_def MIN_TREASURY_BALANCE_def)
  show ?thesis
    unfolding s_def [symmetric]
    using airdrop_skips_settled [OF d p st, of "default_airdrop\<lparr>a_prospectId := Some 2\<rparr>"
        example_world example_config "''SP3TREASURY''" "Some 1000000"]
      d p st v i o g w
    by simp
qed


section \<open>The daily cap of the payout engine\<close>

lemma airdrop_abort:
  "maxDailyAirdrops cfg \<le> airdropsSent (fst (getDailyLimits (today w) s)) \<Longrightarrow>
   airdrop w opts cfg s = (Inr empty_result, snd (getDailyLimits (today w) s))"
  by (simp add: airdrop_def Let_def split_beta)

text \<open>
  Claim C2, as the code has it. When the counter \<open>airdrop\<close> reads for today is at least
  \<open>maxDailyAirdrops\<close>, the result is the empty tally with no transaction, no external
  call is made, the prospects and the activity log are unchanged, and every existing
  ledger row is unchanged. When today's row exists the whole store is unchanged; when it
  does not (then the counter read is 0 and the cap is at most 0), the one write is the
  creation of today's row with both counters 0.
\<close>

theorem airdrop_daily_cap_abort:
  assumes cap: "maxDailyAirdrops cfg \<le> airdropsSent (fst (getDailyLimits (today w) s))"
  shows "fst (airdrop w opts cfg s)
        = Inr \<lparr>ar_sent = 0, ar_confirmed = 0, ar_failed = 0, ar_skipped = 0, transactions = []\<rparr>
    \<and> calls (snd (airdrop w opts cfg s)) = calls s
    \<and> prospects (snd (airdrop w opts cfg s)) = prospects s
    \<and> activity_log (snd (airdrop w opts cfg s)) = activity_log s
    \<and> (\<forall>d row. daily_limits s d = Some row \<longrightarrow>
          daily_limits (snd (airdrop w opts cfg s)) d = Some row)
    \<and> (daily_limits s (today w) \<noteq> None \<longrightarrow> snd (airdrop w opts cfg s) = s)
    \<and> (daily_limits s (today w) = None \<longrightarrow>
          daily_limits (snd (airdrop w opts cfg s))
            = (daily_limits s)(today w \<mapsto> \<lparr>prs_opened = 0, airdrops_sent = 0\<rparr>))"
  unfolding airdrop_abort [OF cap]
  by (auto simp: empty_result_def getDailyLimits_def split: option.split)

text \<open>
  The theorem in the spec's scenario C: a cap of 5 and a counter of 5. The store is
  returned as it was.
\<close>

theorem airdrop_daily_cap_abort_witness:
  "maxDailyAirdrops (example_config\<lparr>maxDailyAirdrops := 5\<rparr>)
     \<le> airdropsSent (fst (getDailyLimits (today example_world) capped_store))
   \<and> airdrop example_world default_airdrop (example_config\<lparr>maxDailyAirdrops := 5\<rparr>) capped_store
       = (Inr \<lparr>ar_sent = 0, ar_confirmed = 0, ar_failed = 0, ar_skipped = 0, transactions = []\<rparr>,
          capped_store)"
proof -
  have h: "maxDailyAirdrops (example_config\<lparr>maxDailyAirdrops := 5\<rparr>)
     \<le> airdropsSent (fst (getDailyLimits (today example_world) capped_store))"
    and r: "daily_limits capped_store (today example_world) \<noteq> None"
    by (simp_all add: getDailyLimits_def capped_store_def example_world_def)
  show ?thesis
    using h r airdrop_daily_cap_abort [OF h, of default_airdrop]
    by (simp add: prod_eq_iff)
qed

text \<open>
  Claim C2 as stated fails on the code: with a cap of 0 and no row for today, the counter
  read is 0, the batch aborts, and the ledger has gained today's row.
\<close>

theorem airdrop_daily_cap_counterexample:
  "maxDailyAirdrops (example_config\<lparr>maxDailyAirdrops := 0\<rparr>)
     \<le> airdropsSent (fst (getDailyLimits (today example_world) (store_of [])))
   \<and> daily_limits (store_of []) ''2026-01-02'' = None
   \<and> daily_limits (snd (airdrop example_world default_airdrop
        (example_config\<lparr>maxDailyAirdrops := 0\<rparr>) (store_of []))) ''2026-01-02''
       = Some \<lparr>prs_opened = 0, airdrops_sent = 0\<rparr>"
  by (simp add: airdrop_def Let_def split_beta getDailyLimits_def store_of_def example_world_def)

section \<open>The daily cap within one run\<close>

lemma updateProspectAirdrop_frame [simp]:
  "daily_limits (updateProspectAirdrop w i d s) = daily_limits s"
  "activity_log (updateProspectAirdrop w i d s) = activity_log s"
  "calls (updateProspectAirdrop w i d s) = calls s"
  by (simp_all add: updateProspectAirdrop_def)

lemma processAirdrop_daily [simp]:
  "daily_limits (snd (processAirdrop w p amount s)) = daily_limits s"
  by (simp add: processAirdrop_def Let_def split_beta waitForConfirmation_def split: sum.split)

lemma sent_today_frame [simp]:
  "sent_today (snd (processAirdrop w p amount s)) d = sent_today s d"
  "sent_today (record_call c s) d = sent_today s d"
  by (simp_all add: sent_today_def)

lemma sent_today_getDailyLimits:
  "sent_today (snd (getDailyLimits d s)) d' = sent_today s d'"
  "airdropsSent (fst (getDailyLimits d s)) = sent_today s d"
  by (simp_all add: sent_today_def getDailyLimits_def split: option.split)

lemma sent_today_increment:
  "sent_today (snd (incrementDailyAirdrops d s)) d' = (if d' = d then sent_today s d + 1 else sent_today s d')"
  by (simp add: sent_today_def incrementDailyAirdrops_def Let_def getDailyLimits_def
      update_daily_def split: option.split)

text \<open>The counter grows by exactly the number of payouts counted as sent.\<close>

lemma airdrop_loop_counter:
  "sent_today (snd (airdrop_loop w cfg ov bal qs res s)) (today w) + int (ar_sent res)
     = sent_today s (today w) + int (ar_sent (fst (airdrop_loop w cfg ov bal qs res s)))
   \<and> ar_sent (fst (airdrop_loop w cfg ov bal qs res s)) \<le> ar_sent res + length qs"
proof (induction qs arbitrary: res s)
  case Nil
  show ?case by simp
next
  case (Cons q qs)
  show ?case
  proof (cases "\<not> truthy_str (stacksAddress q) \<or> \<not> addressValid q \<or> airdropStatus q \<noteq> Pending
      \<or> balance_below bal (airdrop_amount cfg ov q) MIN_TREASURY_BALANCE")
    case True
    then have "airdrop_loop w cfg ov bal (q # qs) res s
        = airdrop_loop w cfg ov bal qs (res\<lparr>ar_skipped := ar_skipped res + 1\<rparr>) s"
      by (auto simp: Let_def)
    then show ?thesis using Cons.IH [of "res\<lparr>ar_skipped := ar_skipped res + 1\<rparr>" s] by simp
  next
    case False
    define tx where "tx = fst (processAirdrop w q (airdrop_amount cfg ov q) s)"
    define s1 where "s1 = snd (processAirdrop w q (airdrop_amount cfg ov q) s)"
    have pa: "processAirdrop w q (airdrop_amount cfg ov q) s = (tx, s1)"
      by (simp add: tx_def s1_def)
    have r1: "sent_today s1 (today w) = sent_today s (today w)"
      unfolding s1_def by simp
    obtain res' s' where step: "airdrop_loop w cfg ov bal (q # qs) res s
        = airdrop_loop w cfg ov bal qs res' s'"
      and cnt: "sent_today s' (today w) + int (ar_sent res) = sent_today s (today w) + int (ar_sent res')"
      and le: "ar_sent res' \<le> ar_sent res + 1"
      using False pa r1
      by (cases "t_status tx = Confirmed"; cases "t_status tx = Sent")
        (auto simp: Let_def sent_today_increment)
    show ?thesis
      unfolding step using Cons.IH [of res' s'] cnt le by auto
  qed
qed

lemma slice0_length: "0 \<le> n \<Longrightarrow> int (length (slice0 n xs)) \<le> n"
  by (simp add: slice0_def)

text \<open>
  With a limit that is not negative, a run never takes today's counter above the cap it
  started under.
\<close>

lemma airdrop_cap_nonneg_limit:
  assumes lim: "0 \<le> (case a_limit opts of None \<Rightarrow> 5 | Some l \<Rightarrow> l)"
    and start: "sent_today s (today w) \<le> maxDailyAirdrops cfg"
  shows "sent_today (snd (airdrop w opts cfg s)) (today w) \<le> maxDailyAirdrops cfg"
proof -
  define n where "n = sent_today s (today w)"
  define e where "e = min (case a_limit opts of None \<Rightarrow> 5 | Some l \<Rightarrow> l) (maxDailyAirdrops cfg - n)"
  have loop: "\<And>bal (qs::Prospect list) (s3::state). sent_today s3 (today w) = n \<Longrightarrow> int (length qs) \<le> e \<Longrightarrow>
      sent_today (snd (airdrop_loop w cfg (a_amount opts) bal qs empty_result s3)) (today w)
        \<le> maxDailyAirdrops cfg"
  proof -
    fix bal and qs :: "Prospect list" and s3 :: state
    assume a: "sent_today s3 (today w) = n" "int (length qs) \<le> e"
    from airdrop_loop_counter [of w cfg "a_amount opts" bal qs empty_result s3]
    have "sent_today (snd (airdrop_loop w cfg (a_amount opts) bal qs empty_result s3)) (today w)
        \<le> n + int (length qs)"
      using a(1) by (simp add: empty_result_def)
    also have "\<dots> \<le> n + e" using a(2) by simp
    also have "\<dots> \<le> maxDailyAirdrops cfg" by (simp add: e_def)
    finally show "sent_today (snd (airdrop_loop w cfg (a_amount opts) bal qs empty_result s3)) (today w)
        \<le> maxDailyAirdrops cfg" .
  qed
  have len: "\<And>xs :: Prospect list. 0 < maxDailyAirdrops cfg - n \<Longrightarrow> int (length (slice0 e xs)) \<le> e"
    using lim by (intro slice0_length) (simp add: e_def)
  show ?thesis
    using start
    by (auto simp: airdrop_def Let_def split_beta sent_today_getDailyLimits n_def [symmetric]
        e_def [symmetric] intro!: loop len split: sum.split)
qed

lemma waitForConfirmation_loop_first:
  "0 < k \<Longrightarrow> tx_status w (calls s) t a = TxSuccess h \<Longrightarrow>
   waitForConfirmation_loop w t a k s = ((True, h), record_call (TxStatus t a) s)"
  by (cases k) (simp_all add: Let_def)

lemma waitForConfirmation_first:
  "tx_status w (calls s) t 0 = TxSuccess h \<Longrightarrow>
   waitForConfirmation w t s = ((True, h), record_call (TxStatus t 0) s)"
  unfolding waitForConfirmation_def by (rule waitForConfirmation_loop_first) simp_all

lemma processAirdrop_example:
  "t_status (fst (processAirdrop example_world p amount s)) = Confirmed"
proof -
  have b: "\<And>tr r a m. broadcast example_world tr r a m = Accepted ''ab12''"
    and c: "\<And>tr t. tx_status example_world tr t 0 = TxSuccess (Some 7)"
    by (simp_all add: example_world_def)
  show ?thesis
    by (simp add: processAirdrop_def Let_def split_beta sendSbtc_def b
        waitForConfirmation_first [OF c])
qed

text \<open>
  Claim C10, evaluated on the code at a negative limit. The cap is 1, today's counter is
  0, three verified prospects are pending and every transfer confirms. With the limit
  \<open>-1\<close> the effective limit is \<open>min(-1, 1) = -1\<close>, the slice keeps all candidates
  but the last, two payouts are sent, and today's counter ends at 2, above the cap.
\<close>

theorem airdrop_negative_limit_exceeds_cap:
  "maxDailyAirdrops (example_config\<lparr>maxDailyAirdrops := 1\<rparr>) = 1
   \<and> sent_today three_pending (today example_world) = 0
   \<and> (case fst (airdrop example_world (default_airdrop\<lparr>a_limit := Some (- 1)\<rparr>)
          (example_config\<lparr>maxDailyAirdrops := 1\<rparr>) three_pending)
       of Inl err \<Rightarrow> None | Inr r \<Rightarrow> Some (ar_sent r, ar_failed r, ar_skipped r, length (transactions r)))
      = Some (2, 0, 0, 2)
   \<and> sent_today (snd (airdrop example_world (default_airdrop\<lparr>a_limit := Some (- 1)\<rparr>)
          (example_config\<lparr>maxDailyAirdrops := 1\<rparr>) three_pending)) (today example_world) = 2"
proof -
  define s3 where "s3 = record_call (GetWalletInfo ''SP3TREASURY'')
      (record_call GetWalletAddress (snd (getDailyLimits (today example_world) three_pending)))"
  have w: "wallet_address example_world = Inr ''SP3TREASURY''"
    "wallet_info example_world ''SP3TREASURY'' = Inr (Some 1000000)"
    by (simp_all add: example_world_def)
  have n0: "sent_today three_pending (today example_world) = 0"
    by (simp add: sent_today_def three_pending_def store_of_def)
  have n3: "sent_today s3 (today example_world) = 0"
    by (simp add: s3_def sent_today_getDailyLimits n0)
  have c: "airdrop_candidates (default_airdrop\<lparr>a_limit := Some (- 1)\<rparr>) s3
      = [verified_prospect 1 Pending, verified_prospect 2 Pending, verified_prospect 3 Pending]"
    by (simp add: airdrop_candidates_def default_airdrop_def truthy_num_def truthy_str_def
        getProspects_def no_filters_def row_matches_def s3_def three_pending_def store_of_def
        verified_prospect_def)
  have sl: "slice0 (- 1) [verified_prospect 1 Pending, verified_prospect 2 Pending,
        verified_prospect 3 Pending] = [verified_prospect 1 Pending, verified_prospect 2 Pending]"
    by (simp add: slice0_def)
  have ok: "\<And>i. truthy_str (stacksAddress (verified_prospect i Pending))"
    "\<And>i. addressValid (verified_prospect i Pending)"
    "\<And>i. airdropStatus (verified_prospect i Pending) = Pending"
    "\<And>i. airdrop_amount (example_config\<lparr>maxDailyAirdrops := 1\<rparr>) None (verified_prospect i Pending) = 10000"
    "\<not> balance_below (Some 1000000) 10000 MIN_TREASURY_BALANCE"
    "\<not> balance_below (Some 1000000) 0 MIN_TREASURY_BALANCE"
    by (simp_all add: verified_prospect_def truthy_str_def airdrop_amount_def truthy_num_def
        example_config_def balance_below_def MIN_TREASURY_BALANCE_def)
  define r where "r = fst (airdrop_loop example_world (example_config\<lparr>maxDailyAirdrops := 1\<rparr>) None
      (Some 1000000) [verified_prospect 1 Pending, verified_prospect 2 Pending] empty_result s3)"
  define s4 where "s4 = snd (airdrop_loop example_world (example_config\<lparr>maxDailyAirdrops := 1\<rparr>) None
      (Some 1000000) [verified_prospect 1 Pending, verified_prospect 2 Pending] empty_result s3)"
  have lp: "ar_sent r = 2 \<and> ar_failed r = 0 \<and> ar_skipped r = 0 \<and> length (transactions r) = 2"
    unfolding r_def
    by (simp add: ok Let_def split_beta processAirdrop_example empty_result_def)
  have cnt: "sent_today s4 (today example_world) = 2"
    using airdrop_loop_counter [of example_world "example_config\<lparr>maxDailyAirdrops := 1\<rparr>" None
        "Some 1000000" "[verified_prospect 1 Pending, verified_prospect 2 Pending]" empty_result s3]
      lp n3
    by (simp add: r_def [symmetric] s4_def [symmetric] del: airdrop_loop.simps)
      (simp add: empty_result_def)
  have o: "a_limit (default_airdrop\<lparr>a_limit := Some (- 1)\<rparr>) = Some (- 1)"
    "a_amount (default_airdrop\<lparr>a_limit := Some (- 1)\<rparr>) = None"
    by (simp_all add: default_airdrop_def)
  have run: "airdrop example_world (default_airdrop\<lparr>a_limit := Some (- 1)\<rparr>)
          (example_config\<lparr>maxDailyAirdrops := 1\<rparr>) three_pending = (Inr r, s4)"
    unfolding r_def s4_def
    by (simp add: airdrop_def Let_def split_beta sent_today_getDailyLimits n0 w ok(6)
        s3_def [symmetric] c sl o del: airdrop_loop.simps)
  show ?thesis
    unfolding run using lp cnt n0 by simp
qed

section \<open>The qualification batch\<close>

lemma updateProspectScore_frame [simp]:
  "daily_limits (updateProspectScore w i sc t s) = daily_limits s"
  "activity_log (updateProspectScore w i sc t s) = activity_log s"
  "calls (updateProspectScore w i sc t s) = calls s"
  by (simp_all add: updateProspectScore_def)

text \<open>Activity, score and tier as the clock moves on.\<close>

lemma scoreActivity_antimono: "now \<le> now' \<Longrightarrow> scoreActivity now' p \<le> scoreActivity now p"
  by (auto simp: scoreActivity_def date_ge_def WEIGHTS_ACTIVITY_def split: option.split)

lemma getTier_antimono: "sc' \<le> sc \<Longrightarrow> tierOrder (getTier sc) \<le> tierOrder (getTier sc')"
  by (auto simp: getTier_def)

lemma qualify_tier_later:
  "now \<le> now' \<Longrightarrow>
   tierOrder (q_tier (qualifyProspect now p)) \<le> tierOrder (q_tier (qualifyProspect now' p))"
proof -
  assume a: "now \<le> now'"
  have "q_score (qualifyProspect now' p) \<le> q_score (qualifyProspect now p)"
    using scoreActivity_antimono [OF a, of p] by (simp add: qualifyProspect_def Let_def)
  then show ?thesis
    using getTier_antimono by (simp add: qualifyProspect_def Let_def)
qed

lemma below_minTier_later:
  "now \<le> now' \<Longrightarrow> below_minTier m (q_tier (qualifyProspect now p)) \<Longrightarrow>
   below_minTier m (q_tier (qualifyProspect now' p))"
  using qualify_tier_later [of now now' p]
  by (cases m) (auto simp: below_minTier_def)

text \<open>A candidate the loop passes over leaves the store as it is.\<close>

lemma qualify_loop_all_skipped:
  "(\<And>q. q \<in> set qs \<Longrightarrow>
      (tier q \<noteq> None \<and> \<not> truthy_num (q_prospectId opts))
      \<or> below_minTier (q_minTier opts) (q_tier (qualifyProspect (now_ms w) q))) \<Longrightarrow>
   snd (qualify_loop w opts qs res s) = s"
proof (induction qs arbitrary: res)
  case Nil
  show ?case by simp
next
  case (Cons q qs)
  have step: "qualify_loop w opts (q # qs) res s
      = qualify_loop w opts qs (res\<lparr>qr_skipped := qr_skipped res + 1\<rparr>) s"
    using Cons.prems [of q] by (auto simp: Let_def)
  show ?case unfolding step by (rule Cons.IH) (use Cons.prems in auto)
qed

lemma qualify_loop_rows:
  "(\<And>q. q \<in> set qs \<Longrightarrow> id_p q = pid \<Longrightarrow> tier q \<noteq> None) \<Longrightarrow>
   \<not> truthy_num (q_prospectId opts) \<Longrightarrow>
   rows_of pid (snd (qualify_loop w opts qs res s)) = rows_of pid s"
proof (induction qs arbitrary: res s)
  case Nil
  show ?case by simp
next
  case (Cons q qs)
  have IH: "\<And>res s. rows_of pid (snd (qualify_loop w opts qs res s)) = rows_of pid s"
    using Cons.prems by (intro Cons.IH) auto
  show ?case
  proof (cases "tier q \<noteq> None
      \<or> below_minTier (q_minTier opts) (q_tier (qualifyProspect (now_ms w) q))")
    case True
    then have "qualify_loop w opts (q # qs) res s
        = qualify_loop w opts qs (res\<lparr>qr_skipped := qr_skipped res + 1\<rparr>) s"
      using Cons.prems(2) by (auto simp: Let_def)
    then show ?thesis by (simp add: IH)
  next
    case False
    then have ne: "id_p q \<noteq> pid" using Cons.prems(1) [of q] by auto
    show ?thesis
      using False ne by (simp add: Let_def IH rows_of_updateProspectScore)
  qed
qed

text \<open>
  After a batch run, a row that still has no tier is a row of the store before the run,
  and if it was a candidate, its recomputed tier is below \<open>minTier\<close>.
\<close>

lemma qualify_loop_untiered:
  "\<not> truthy_num (q_prospectId opts) \<Longrightarrow>
   r \<in> set (prospects (snd (qualify_loop w opts qs res s))) \<Longrightarrow> tier r = None \<Longrightarrow>
   r \<in> set (prospects s)
   \<and> (r \<in> set qs \<longrightarrow> below_minTier (q_minTier opts) (q_tier (qualifyProspect (now_ms w) r)))"
proof (induction qs arbitrary: res s)
  case Nil
  then show ?case by simp
next
  case (Cons q qs)
  show ?case
  proof (cases "tier q \<noteq> None
      \<or> below_minTier (q_minTier opts) (q_tier (qualifyProspect (now_ms w) q))")
    case True
    then have step: "qualify_loop w opts (q # qs) res s
        = qualify_loop w opts qs (res\<lparr>qr_skipped := qr_skipped res + 1\<rparr>) s"
      using Cons.prems(1) by (auto simp: Let_def)
    from Cons.IH [OF Cons.prems(1) Cons.prems(2) [unfolded step] Cons.prems(3)]
    show ?thesis using True Cons.prems(3) by auto
  next
    case False
    define result where "result = qualifyProspect (now_ms w) q"
    define s2 where "s2 = logActivity ''qualify:scored'' (id_p q)
        (QualifyScoredDetails (q_score result) (q_tier result) (breakdown result))
        (updateProspectScore w (id_p q) (q_score result) (q_tier result) s)"
    obtain res' where step: "qualify_loop w opts (q # qs) res s = qualify_loop w opts qs res' s2"
      using False by (simp add: Let_def s2_def result_def)
    from Cons.IH [OF Cons.prems(1) Cons.prems(2) [unfolded step] Cons.prems(3)]
    have in2: "r \<in> set (prospects s2)"
      and rest: "r \<in> set qs \<longrightarrow> below_minTier (q_minTier opts) (q_tier (qualifyProspect (now_ms w) r))"
      by auto
    have "r \<in> set (prospects s) \<and> id_p r \<noteq> id_p q"
      using in2 Cons.prems(3) by (auto simp: s2_def updateProspectScore_def split: if_split_asm)
    then show ?thesis using rest by auto
  qed
qed

lemma getProspects_pending:
  "set (getProspects (no_filters\<lparr>f_pendingQualification := True\<rparr>) s)
     = {r \<in> set (prospects s). tier r = None}"
  by (auto simp: getProspects_def no_filters_def row_matches_def)

lemma qualify_twice:
  assumes b: "\<not> truthy_num (q_prospectId opts)" and pend: "q_pending opts"
    and later: "now_ms w \<le> now_ms w'"
  shows "snd (qualify w' opts (snd (qualify w opts s))) = snd (qualify w opts s)"
proof -
  define s1 where "s1 = snd (qualify w opts s)"
  have c1: "qualify_candidates opts s = getProspects (no_filters\<lparr>f_pendingQualification := True\<rparr>) s"
    and c2: "qualify_candidates opts s1 = getProspects (no_filters\<lparr>f_pendingQualification := True\<rparr>) s1"
    using b pend by (simp_all add: qualify_candidates_def)
  have "\<And>q. q \<in> set (qualify_candidates opts s1) \<Longrightarrow>
      below_minTier (q_minTier opts) (q_tier (qualifyProspect (now_ms w') q))"
  proof -
    fix q assume "q \<in> set (qualify_candidates opts s1)"
    then have q1: "q \<in> set (prospects s1)" and t: "tier q = None"
      by (simp_all add: c2 getProspects_pending)
    from qualify_loop_untiered [OF b q1 [unfolded s1_def qualify_def] t]
    have q0: "q \<in> set (prospects s)"
      and f: "q \<in> set (qualify_candidates opts s) \<longrightarrow>
        below_minTier (q_minTier opts) (q_tier (qualifyProspect (now_ms w) q))"
      by auto
    have "q \<in> set (qualify_candidates opts s)" using q0 t by (simp add: c1 getProspects_pending)
    with f have "below_minTier (q_minTier opts) (q_tier (qualifyProspect (now_ms w) q))" by blast
    then show "below_minTier (q_minTier opts) (q_tier (qualifyProspect (now_ms w') q))"
      by (rule below_minTier_later [OF later])
  qed
  then have "snd (qualify w' opts s1) = s1"
    unfolding qualify_def by (intro qualify_loop_all_skipped) blast
  then show ?thesis by (simp add: s1_def)
qed


lemma find_map_update:
  "(\<And>r. id_p (f r) = id_p r) \<Longrightarrow>
   find (\<lambda>r. id_p r = i) (map (\<lambda>r. if id_p r = i then f r else r) xs)
     = map_option f (find (\<lambda>r. id_p r = i) xs)"
  by (induction xs) auto

lemma getProspectById_updateProspectScore:
  "getProspectById i (updateProspectScore w i sc t s)
     = map_option (\<lambda>r. r\<lparr>score := sc, tier := Some t, updatedAt := now_sql w\<rparr>) (getProspectById i s)"
  unfolding getProspectById_def updateProspectScore_def update_rows_frame
  by (rule find_map_update) simp

lemma getProspectById_logActivity [simp]:
  "getProspectById i (logActivity a j d s) = getProspectById i s"
  by (simp add: getProspectById_def)

lemma qualify_candidates_subset: "set (qualify_candidates opts s) \<subseteq> set (prospects s)"
  using getProspects_subset
  by (auto simp: qualify_candidates_def split: option.split
      dest: getProspectById_in getProspectById_in [OF sym])

lemma qualify_by_id:
  assumes o: "q_prospectId opts = Some i" and i: "i \<noteq> 0" and g: "getProspectById i s = Some p"
  shows "snd (qualify w opts s) =
     (if below_minTier (q_minTier opts) (q_tier (qualifyProspect (now_ms w) p)) then s
      else logActivity ''qualify:scored'' i
             (QualifyScoredDetails (q_score (qualifyProspect (now_ms w) p))
                (q_tier (qualifyProspect (now_ms w) p)) (breakdown (qualifyProspect (now_ms w) p)))
             (updateProspectScore w i (q_score (qualifyProspect (now_ms w) p))
                (q_tier (qualifyProspect (now_ms w) p)) s))"
proof -
  have t: "truthy_num (q_prospectId opts)" using o i by (simp add: truthy_num_def)
  have c: "qualify_candidates opts s = [p]" using o t g by (simp add: qualify_candidates_def)
  have idp: "id_p p = i" using getProspectById_in [OF g] by simp
  show ?thesis by (simp add: qualify_def c t Let_def idp)
qed

text \<open>
  Claim C5, as the code has it. (1) In a run without a prospect id, on a table with
  distinct ids, every row that already has a tier is unchanged afterwards. (2) A pending
  batch run followed by a second one, at the same or a later clock reading, changes
  nothing the second time. (3) A run with an explicit prospect id recomputes the score
  and overwrites the persisted score and tier, whether or not a tier was set, provided no
  \<open>minTier\<close> is given or the recomputed tier is not below it. (4) When the recomputed
  tier is below \<open>minTier\<close>, the named prospect is skipped and the store is unchanged.
\<close>

theorem qualify_batch_and_forced:
  "(distinct (map id_p (prospects s)) \<and> \<not> truthy_num (q_prospectId opts)
      \<and> p \<in> set (prospects s) \<and> tier p \<noteq> None \<longrightarrow>
        getProspectById (id_p p) (snd (qualify w opts s)) = Some p)
   \<and> (\<not> truthy_num (q_prospectId opts) \<and> q_pending opts \<and> now_ms w \<le> now_ms w' \<longrightarrow>
        snd (qualify w' opts (snd (qualify w opts s))) = snd (qualify w opts s))
   \<and> (q_prospectId opts = Some i \<and> i \<noteq> 0 \<and> getProspectById i s = Some p
      \<and> \<not> below_minTier (q_minTier opts) (q_tier (qualifyProspect (now_ms w) p)) \<longrightarrow>
        getProspectById i (snd (qualify w opts s))
          = Some (p\<lparr>score := q_score (qualifyProspect (now_ms w) p),
                    tier := Some (q_tier (qualifyProspect (now_ms w) p)),
                    updatedAt := now_sql w\<rparr>))
   \<and> (q_prospectId opts = Some i \<and> i \<noteq> 0 \<and> getProspectById i s = Some p
      \<and> below_minTier (q_minTier opts) (q_tier (qualifyProspect (now_ms w) p)) \<longrightarrow>
        snd (qualify w opts s) = s)"
proof (intro conjI impI)
  assume a: "distinct (map id_p (prospects s)) \<and> \<not> truthy_num (q_prospectId opts)
      \<and> p \<in> set (prospects s) \<and> tier p \<noteq> None"
  then have rows: "rows_of (id_p p) s = [p]" by (intro rows_of_distinct) simp_all
  have "\<And>q. q \<in> set (qualify_candidates opts s) \<Longrightarrow> id_p q = id_p p \<Longrightarrow> tier q \<noteq> None"
  proof -
    fix q assume "q \<in> set (qualify_candidates opts s)" "id_p q = id_p p"
    then have "q \<in> set (rows_of (id_p p) s)"
      using qualify_candidates_subset [of opts s] by (auto simp: rows_of_def)
    then have "q = p" by (simp add: rows)
    then show "tier q \<noteq> None" using a by simp
  qed
  then have "rows_of (id_p p) (snd (qualify w opts s)) = rows_of (id_p p) s"
    unfolding qualify_def using a by (intro qualify_loop_rows) blast+
  then show "getProspectById (id_p p) (snd (qualify w opts s)) = Some p"
    by (simp add: getProspectById_rows rows)
next
  assume "\<not> truthy_num (q_prospectId opts) \<and> q_pending opts \<and> now_ms w \<le> now_ms w'"
  then show "snd (qualify w' opts (snd (qualify w opts s))) = snd (qualify w opts s)"
    by (intro qualify_twice) simp_all
next
  assume a: "q_prospectId opts = Some i \<and> i \<noteq> 0 \<and> getProspectById i s = Some p
      \<and> \<not> below_minTier (q_minTier opts) (q_tier (qualifyProspect (now_ms w) p))"
  then have o: "q_prospectId opts = Some i" and i: "i \<noteq> 0" and g: "getProspectById i s = Some p"
    by simp_all
  show "getProspectById i (snd (qualify w opts s))
          = Some (p\<lparr>score := q_score (qualifyProspect (now_ms w) p),
                    tier := Some (q_tier (qualifyProspect (now_ms w) p)),
                    updatedAt := now_sql w\<rparr>)"
    using a by (simp add: qualify_by_id [OF o i g] getProspectById_updateProspectScore g)
next
  assume a: "q_prospectId opts = Some i \<and> i \<noteq> 0 \<and> getProspectById i s = Some p
      \<and> below_minTier (q_minTier opts) (q_tier (qualifyProspect (now_ms w) p))"
  then have o: "q_prospectId opts = Some i" and i: "i \<noteq> 0" and g: "getProspectById i s = Some p"
    by simp_all
  show "snd (qualify w opts s) = s"
    using a by (simp add: qualify_by_id [OF o i g])
qed

lemma tiered_eval:
  "qualifyProspect now tiered_prospect =
     \<lparr>q_score = 0, q_tier = D,
      breakdown = \<lparr>claudeMcp = 0, aiAgent = 0, b_stars = 0, activity = 0, followers = 0,
                   crypto = 0\<rparr>,
      personalizationHooks = []\<rparr>"
  by (simp add: tiered_prospect_def example_prospect_def qualifyProspect_def Let_def
      scoreClaudeMcp_def scoreAiAgent_def scoreStars_def totalStars_def scoreActivity_def
      mostRecentUpdate_def scoreFollowers_def scoreCrypto_def getTier_def
      generatePersonalizationHooks_def topRepo_def WEIGHTS_AI_AGENT_def WEIGHTS_STARS_def)

lemma tiered_get: "getProspectById 1 (store_of [tiered_prospect]) = Some tiered_prospect"
  by (simp add: getProspectById_def store_of_def tiered_prospect_def example_prospect_def)

text \<open>
  The theorem on a table with one row of tier A and score 80 and no repositories, which
  scores 0 and tier D: the batch run leaves it, the run naming it overwrites it with 0
  and D, and the run naming it with \<open>minTier\<close> A leaves it.
\<close>

theorem qualify_batch_and_forced_witness:
  "distinct (map id_p (prospects (store_of [tiered_prospect])))
   \<and> \<not> truthy_num (q_prospectId batch_qualify) \<and> q_pending batch_qualify
   \<and> tiered_prospect \<in> set (prospects (store_of [tiered_prospect]))
   \<and> tier tiered_prospect \<noteq> None
   \<and> getProspectById 1 (snd (qualify example_world batch_qualify (store_of [tiered_prospect])))
       = Some tiered_prospect
   \<and> snd (qualify example_world batch_qualify
          (snd (qualify example_world batch_qualify (store_of [tiered_prospect]))))
       = snd (qualify example_world batch_qualify (store_of [tiered_prospect]))
   \<and> getProspectById 1
        (snd (qualify example_world (batch_qualify\<lparr>q_prospectId := Some 1\<rparr>)
           (store_of [tiered_prospect])))
       = Some (tiered_prospect\<lparr>score := 0, tier := Some D, updatedAt := ''2026-01-02 12:00:00''\<rparr>)
   \<and> below_minTier (Some A) (q_tier (qualifyProspect (now_ms example_world) tiered_prospect))
   \<and> snd (qualify example_world (batch_qualify\<lparr>q_prospectId := Some 1, q_minTier := Some A\<rparr>)
          (store_of [tiered_prospect]))
       = store_of [tiered_prospect]"
proof -
  have h: "distinct (map id_p (prospects (store_of [tiered_prospect])))"
    "\<not> truthy_num (q_prospectId batch_qualify)" "q_pending batch_qualify"
    "tiered_prospect \<in> set (prospects (store_of [tiered_prospect]))"
    "tier tiered_prospect \<noteq> None" "id_p tiered_prospect = 1"
    by (simp_all add: store_of_def batch_qualify_def truthy_num_def tiered_prospect_def
        example_prospect_def)
  have o: "q_prospectId (batch_qualify\<lparr>q_prospectId := Some 1\<rparr>) = Some 1"
    "q_minTier (batch_qualify\<lparr>q_prospectId := Some 1\<rparr>) = None"
    "q_prospectId (batch_qualify\<lparr>q_prospectId := Some 1, q_minTier := Some A\<rparr>) = Some 1"
    "q_minTier (batch_qualify\<lparr>q_prospectId := Some 1, q_minTier := Some A\<rparr>) = Some A"
    by (simp_all add: batch_qualify_def)
  have b: "below_minTier (Some A) D" "\<not> below_minTier None D" by (simp_all add: below_minTier_def)
  have n: "now_sql example_world = ''2026-01-02 12:00:00''" by (simp add: example_world_def)
  show ?thesis
    using h o b n tiered_get
      qualify_batch_and_forced [of "store_of [tiered_prospect]" batch_qualify tiered_prospect
        example_world example_world 1]
      qualify_batch_and_forced [of "store_of [tiered_prospect]"
        "batch_qualify\<lparr>q_prospectId := Some 1\<rparr>" tiered_prospect example_world example_world 1]
      qualify_batch_and_forced [of "store_of [tiered_prospect]"
        "batch_qualify\<lparr>q_prospectId := Some 1, q_minTier := Some A\<rparr>" tiered_prospect
        example_world example_world 1]
    by (simp add: tiered_eval)
qed

text \<open>
  Claim C5 as stated fails on the code: the run names prospect 1 explicitly, the
  recomputed score is 0 and the tier D, and the persisted score 80 and tier A are not
  overwritten, because \<open>minTier\<close> is A.
\<close>

theorem qualify_forced_counterexample:
  "q_prospectId (batch_qualify\<lparr>q_prospectId := Some 1, q_minTier := Some A\<rparr>) = Some 1
   \<and> getProspectById 1 (store_of [tiered_prospect]) = Some tiered_prospect
   \<and> score tiered_prospect = 80 \<and> tier tiered_prospect = Some A
   \<and> q_score (qualifyProspect (now_ms example_world) tiered_prospect) = 0
   \<and> q_tier (qualifyProspect (now_ms example_world) tiered_prospect) = D
   \<and> getProspectById 1
        (snd (qualify example_world (batch_qualify\<lparr>q_prospectId := Some 1, q_minTier := Some A\<rparr>)
           (store_of [tiered_prospect])))
       = Some tiered_prospect"
proof -
  have o: "q_prospectId (batch_qualify\<lparr>q_prospectId := Some 1, q_minTier := Some A\<rparr>) = Some 1"
    "q_minTier (batch_qualify\<lparr>q_prospectId := Some 1, q_minTier := Some A\<rparr>) = Some A"
    by (simp_all add: batch_qualify_def)
  have t: "score tiered_prospect = 80" "tier tiered_prospect = Some A"
    by (simp_all add: tiered_prospect_def)
  have one: "(1::int) \<noteq> 0" by simp
  show ?thesis
    by (simp add: o t tiered_get tiered_eval qualify_by_id [OF o(1) one tiered_get]
        below_minTier_def)
qed

section \<open>Outreach\<close>

lemma gh_run_frame [simp]:
  "prospects (snd (gh_run w cs s)) = prospects s"
  "daily_limits (snd (gh_run w cs s)) = daily_limits s"
  "activity_log (snd (gh_run w cs s)) = activity_log s"
  by (induction cs arbitrary: s; simp split: option.split)+

lemma rows_of_gh_run [simp]: "rows_of pid (snd (gh_run w cs s)) = rows_of pid s"
  by (simp add: rows_of_def)

lemma sendOutreach_id: "r_prospectId (fst (sendOutreach w p dryRun s)) = id_p p"
  by (simp add: sendOutreach_def Let_def split_beta split: option.split prod.split)

lemma sendOutreach_rows:
  "id_p p \<noteq> pid \<Longrightarrow> rows_of pid (snd (sendOutreach w p dryRun s)) = rows_of pid s"
proof -
  assume ne: "id_p p \<noteq> pid"
  have g: "\<And>cs e s1. gh_run w cs s = (e, s1) \<Longrightarrow> rows_of pid s1 = rows_of pid s"
  proof -
    fix cs e s1 assume "gh_run w cs s = (e, s1)"
    then have "s1 = snd (gh_run w cs s)" by simp
    then show "rows_of pid s1 = rows_of pid s" by simp
  qed
  show ?thesis
    using ne
    by (auto simp: sendOutreach_def Let_def rows_of_updateProspectOutreach
        split: option.split prod.split dest: g)
qed

lemma outreach_loop_inv:
  "(\<And>q. q \<in> set qs \<Longrightarrow> id_p q \<noteq> pid) \<Longrightarrow>
   rows_of pid (snd (outreach_loop w dryRun qs res s)) = rows_of pid s"
proof (induction qs arbitrary: res s)
  case Nil
  show ?case by simp
next
  case (Cons q qs)
  have IH: "\<And>res s. rows_of pid (snd (outreach_loop w dryRun qs res s)) = rows_of pid s"
    using Cons.prems by (intro Cons.IH) auto
  have ne: "id_p q \<noteq> pid" using Cons.prems [of q] by simp
  show ?case
    by (simp add: Let_def split_beta IH sendOutreach_rows [OF ne])
qed

lemma outreach_loop_records:
  "rec \<in> set (records (fst (outreach_loop w dryRun qs res s))) \<Longrightarrow>
   rec \<in> set (records res) \<or> r_prospectId rec \<in> id_p ` set qs"
proof (induction qs arbitrary: res s)
  case Nil
  then show ?case by simp
next
  case (Cons q qs)
  show ?case
  proof (cases "outreachStatus q \<noteq> OPending")
    case True
    then have "outreach_loop w dryRun (q # qs) res s
        = outreach_loop w dryRun qs (res\<lparr>or_skipped := or_skipped res + 1\<rparr>) s"
      by simp
    with Cons.prems Cons.IH [of "res\<lparr>or_skipped := or_skipped res + 1\<rparr>" s]
    show ?thesis by auto
  next
    case False
    define rc where "rc = fst (sendOutreach w q dryRun s)"
    define s1 where "s1 = snd (sendOutreach w q dryRun s)"
    obtain res' where step: "outreach_loop w dryRun (q # qs) res s = outreach_loop w dryRun qs res' s1"
      and rs: "set (records res') = insert rc (set (records res))"
      using False
      by (cases "r_status rc = Delivered"; cases "r_status rc = RFailed")
        (auto simp: Let_def split_beta rc_def s1_def)
    have "r_prospectId rc = id_p q" by (simp add: rc_def sendOutreach_id)
    with Cons.prems [unfolded step] Cons.IH [of res' s1] rs
    show ?thesis by auto
  qed
qed

lemma tier_abc: "(t \<in> {Some A, Some B, Some C}) = (t \<noteq> None \<and> t \<noteq> Some D)"
proof (cases t)
  case None
  then show ?thesis by simp
next
  case (Some x)
  then show ?thesis by (cases x) simp_all
qed

lemma outreach_candidates_qualified:
  "q \<in> set (outreach_candidates opts e s) \<Longrightarrow>
   q \<in> set (prospects s) \<and> tier q \<in> {Some A, Some B, Some C}"
  unfolding tier_abc
  using getProspects_subset
  by (auto simp: outreach_candidates_def split: if_split_asm option.split_asm
      dest: getProspectById_in getProspectById_in [OF sym])

lemma outreach_candidates_cong:
  "prospects (s'::state) = prospects (s::state) \<Longrightarrow>
   outreach_candidates opts e s' = outreach_candidates opts e s"
  by (simp add: outreach_candidates_def getProspects_def getProspectById_def)

text \<open>
  Claim C6. On a table with distinct ids and for every invocation of \<open>outreach\<close>,
  with or without a prospect id, dry run or not, whatever the external services answer:
  every record of the result, one per call of \<open>sendOutreach\<close>, belongs to a prospect
  whose tier is A, B or C; and every prospect whose tier is D or null has its row
  unchanged afterwards, so no pull request is recorded for it and its outreach status is
  not set to \<open>pr_opened\<close>.
\<close>

theorem outreach_only_qualified:
  assumes d: "distinct (map id_p (prospects s))"
  shows "(\<forall>r. fst (outreach w opts cfg s) = Inr r \<longrightarrow>
           (\<forall>rec \<in> set (records r). \<exists>p \<in> set (prospects s).
               id_p p = r_prospectId rec \<and> tier p \<in> {Some A, Some B, Some C}))
       \<and> (\<forall>p \<in> set (prospects s). tier p \<notin> {Some A, Some B, Some C} \<longrightarrow>
             getProspectById (id_p p) (snd (outreach w opts cfg s)) = Some p)"
proof -
  have rec: "\<And>dry e (s1::state) rec. prospects s1 = prospects s \<Longrightarrow>
      rec \<in> set (records (fst (outreach_loop w dry (outreach_candidates opts e s1) empty_outreach s1)))
      \<Longrightarrow> \<exists>p \<in> set (prospects s). id_p p = r_prospectId rec \<and> tier p \<in> {Some A, Some B, Some C}"
  proof -
    fix dry e rec and s1 :: state
    assume eq: "prospects s1 = prospects s"
      and r: "rec \<in> set (records (fst (outreach_loop w dry (outreach_candidates opts e s1) empty_outreach s1)))"
    from outreach_loop_records [OF r]
    have "r_prospectId rec \<in> id_p ` set (outreach_candidates opts e s1)"
      by (simp add: empty_outreach_def)
    then obtain q where "q \<in> set (outreach_candidates opts e s1)" "r_prospectId rec = id_p q" by auto
    then show "\<exists>p \<in> set (prospects s). id_p p = r_prospectId rec \<and> tier p \<in> {Some A, Some B, Some C}"
      using outreach_candidates_qualified [of q opts e s1] eq by auto
  qed
  have rows: "\<And>p dry e (s1::state). p \<in> set (prospects s) \<Longrightarrow> tier p \<notin> {Some A, Some B, Some C} \<Longrightarrow>
      prospects s1 = prospects s \<Longrightarrow>
      rows_of (id_p p) (snd (outreach_loop w dry (outreach_candidates opts e s1) empty_outreach s1)) = [p]"
  proof -
    fix p dry e and s1 :: state
    assume p: "p \<in> set (prospects s)" and t: "tier p \<notin> {Some A, Some B, Some C}"
      and eq: "prospects s1 = prospects s"
    have r: "rows_of (id_p p) s = [p]" by (rule rows_of_distinct [OF d p])
    have "\<And>q. q \<in> set (outreach_candidates opts e s1) \<Longrightarrow> id_p q \<noteq> id_p p"
    proof
      fix q assume q: "q \<in> set (outreach_candidates opts e s1)" and i: "id_p q = id_p p"
      from outreach_candidates_qualified [OF q]
      have qs: "q \<in> set (prospects s)" and qt: "tier q \<in> {Some A, Some B, Some C}"
        using eq by auto
      have "q \<in> set (rows_of (id_p p) s)" using qs i by (simp add: rows_of_def)
      then have "q = p" by (simp add: r)
      then show False using qt t by simp
    qed
    then have "rows_of (id_p p) (snd (outreach_loop w dry (outreach_candidates opts e s1) empty_outreach s1))
        = rows_of (id_p p) s1"
      by (rule outreach_loop_inv)
    then show "rows_of (id_p p) (snd (outreach_loop w dry (outreach_candidates opts e s1) empty_outreach s1)) = [p]"
      using rows_of_cong [OF eq, of "id_p p"] r by simp
  qed
  have er: "records empty_outreach = []" by (simp add: empty_outreach_def)
  have c1: "\<forall>r. fst (outreach w opts cfg s) = Inr r \<longrightarrow>
           (\<forall>rec \<in> set (records r). \<exists>p \<in> set (prospects s).
               id_p p = r_prospectId rec \<and> tier p \<in> {Some A, Some B, Some C})"
    by (auto simp: outreach_def Let_def split_beta er split: if_split_asm dest!: rec [rotated])
  have c2: "\<forall>p \<in> set (prospects s). tier p \<notin> {Some A, Some B, Some C} \<longrightarrow>
             getProspectById (id_p p) (snd (outreach w opts cfg s)) = Some p"
  proof (intro ballI impI)
    fix p assume p: "p \<in> set (prospects s)" and t: "tier p \<notin> {Some A, Some B, Some C}"
    have r: "rows_of (id_p p) s = [p]" by (rule rows_of_distinct [OF d p])
    have "rows_of (id_p p) (snd (outreach w opts cfg s)) = [p]"
      by (simp add: outreach_def Let_def split_beta r rows [OF p t])
    then show "getProspectById (id_p p) (snd (outreach w opts cfg s)) = Some p"
      by (simp add: getProspectById_rows)
  qed
  show ?thesis using c1 c2 by blast
qed


text \<open>
  The theorem on a table with one tier D prospect that has a repository and a pending
  outreach status, in a run that names it: no record, and the row as it was.
\<close>

theorem outreach_only_qualified_witness:
  "distinct (map id_p (prospects (store_of [unqualified_prospect])))
   \<and> unqualified_prospect \<in> set (prospects (store_of [unqualified_prospect]))
   \<and> tier unqualified_prospect \<notin> {Some A, Some B, Some C}
   \<and> outreachStatus unqualified_prospect = OPending
   \<and> getProspectById 1
        (snd (outreach example_world (default_outreach\<lparr>o_prospectId := Some 1\<rparr>) example_config
           (store_of [unqualified_prospect])))
       = Some unqualified_prospect
   \<and> fst (outreach example_world (default_outreach\<lparr>o_prospectId := Some 1\<rparr>) example_config
         (store_of [unqualified_prospect]))
       = Inr \<lparr>or_sent = 0, or_failed = 0, or_skipped = 0, records = []\<rparr>"
proof -
  have d: "distinct (map id_p (prospects (store_of [unqualified_prospect])))"
    and p: "unqualified_prospect \<in> set (prospects (store_of [unqualified_prospect]))"
    and t: "tier unqualified_prospect \<notin> {Some A, Some B, Some C}"
    and o: "outreachStatus unqualified_prospect = OPending"
    and i: "id_p unqualified_prospect = 1"
    and td: "tier unqualified_prospect = Some D"
    by (simp_all add: store_of_def unqualified_prospect_def example_prospect_def)
  have c: "\<And>e s1. prospects s1 = [unqualified_prospect] \<Longrightarrow>
      outreach_candidates (default_outreach\<lparr>o_prospectId := Some 1\<rparr>) e s1 = []"
    using i td by (simp add: outreach_candidates_def default_outreach_def truthy_num_def
        getProspectById_def)
  have r: "fst (outreach example_world (default_outreach\<lparr>o_prospectId := Some 1\<rparr>) example_config
         (store_of [unqualified_prospect]))
       = Inr \<lparr>or_sent = 0, or_failed = 0, or_skipped = 0, records = []\<rparr>"
    by (simp add: outreach_def Let_def split_beta c store_of_def empty_outreach_def
        example_world_def example_config_def getDailyLimits_def)
  have g: "getProspectById (id_p unqualified_prospect)
        (snd (outreach example_world (default_outreach\<lparr>o_prospectId := Some 1\<rparr>) example_config
           (store_of [unqualified_prospect])))
       = Some unqualified_prospect"
    using outreach_only_qualified [OF d, of example_world
        "default_outreach\<lparr>o_prospectId := Some 1\<rparr>" example_config] p t
    by blast
  show ?thesis
    using g d p t o r by (simp add: i)
qed

end
